theory Spec2Isabelle
  imports Complex_Main "HOL-Library.Sublist" "HOL-Library.Multiset"
begin

section \<open>Values exchanged with the server\<close>

text \<open>
  The client code is JavaScript: the server's answers are parsed JSON. A payload that the
  client stores without looking inside it (the session, the reasoning tree, the system
  status) is kept as a JSON value. A JavaScript string is modelled by a \<open>string\<close>,
  one \<open>char\<close> for each of its code units (those below 256).
\<close>

datatype json =
    JNull
  | JBool bool
  | JNum real
  | JStr string
  | JArr "json list"
  | JObj "(string \<times> json) list"

section \<open>The orchestrator context (OrchestratorContext: reducer and operations)\<close>

text \<open>
  A task of a workflow as the server reports it: \<open>workflow.tasks[i].agent_name\<close> and
  \<open>workflow.tasks[i].status\<close>. The status is the server's string (\<open>pending\<close>,
  \<open>running\<close>, \<open>completed\<close>, \<open>failed\<close>); the client compares it with \<open>===\<close>.
\<close>

record task =
  agent_name :: string
  status :: string

text \<open>\<open>tasks\<close> is \<open>None\<close> when the property is missing or null (\<open>!workflow.tasks\<close>).\<close>

record workflow =
  workflow_id :: "string option"
  tasks :: "task list option"

text \<open>
  A message of the orchestrator context: \<open>{id, type, content, timestamp, workflowId}\<close>.
  \<open>content\<close> of a system message is \<open>response.response\<close>, which may be missing.
\<close>

record orch_message =
  om_id :: nat
  om_type :: string
  om_content :: "string option"
  om_timestamp :: string
  om_workflowId :: "string option"

text \<open>The state of the reducer, field by field as \<open>initialState\<close> has it.\<close>

record orch_state =
  loading :: bool
  error :: "string option"
  session :: "json option"
  currentWorkflow :: "workflow option"
  agentStatuses :: "string \<rightharpoonup> string"
  messages :: "orch_message list"
  reasoningTree :: "json option"
  systemStatus :: "json option"

definition initialState :: orch_state where
  "initialState = \<lparr> loading = False, error = None, session = None,
     currentWorkflow = None, agentStatuses = Map.empty, messages = [],
     reasoningTree = None, systemStatus = None \<rparr>"

text \<open>
  The actions of \<open>ACTIONS\<close>, each with its payload. \<open>UNKNOWN_ACTION\<close> stands for an
  action whose type is none of them (the \<open>default\<close> branch of the switch).
\<close>

datatype action =
    SET_LOADING bool
  | SET_ERROR "string option"
  | SET_SESSION "json option"
  | SET_WORKFLOW "workflow option"
  | UPDATE_AGENT_STATUS string string
  | ADD_MESSAGE orch_message
  | SET_REASONING_TREE "json option"
  | CLEAR_WORKFLOW
  | SET_SYSTEM_STATUS "json option"
  | UNKNOWN_ACTION

fun orchestratorReducer :: "orch_state \<Rightarrow> action \<Rightarrow> orch_state" where
  "orchestratorReducer state (SET_LOADING p) = state\<lparr>loading := p\<rparr>"
| "orchestratorReducer state (SET_ERROR p) = state\<lparr>error := p, loading := False\<rparr>"
| "orchestratorReducer state (SET_SESSION p) = state\<lparr>session := p\<rparr>"
| "orchestratorReducer state (SET_WORKFLOW p) =
     state\<lparr>currentWorkflow := p, loading := False, error := None\<rparr>"
| "orchestratorReducer state (UPDATE_AGENT_STATUS agentName st) =
     state\<lparr>agentStatuses := (agentStatuses state)(agentName \<mapsto> st)\<rparr>"
| "orchestratorReducer state (ADD_MESSAGE p) = state\<lparr>messages := messages state @ [p]\<rparr>"
| "orchestratorReducer state (SET_REASONING_TREE p) = state\<lparr>reasoningTree := p\<rparr>"
| "orchestratorReducer state CLEAR_WORKFLOW =
     state\<lparr>currentWorkflow := None, agentStatuses := Map.empty,
            reasoningTree := None, error := None\<rparr>"
| "orchestratorReducer state (SET_SYSTEM_STATUS p) = state\<lparr>systemStatus := p\<rparr>"
| "orchestratorReducer state UNKNOWN_ACTION = state"

text \<open>
  The operations of the provider touch the state only through \<open>dispatch\<close>. An operation
  is modelled by the list of actions it dispatches, in order, given what its \<open>await\<close>
  produced; the state after the operation is the reducer folded over that list.
\<close>

definition dispatch_all :: "orch_state \<Rightarrow> action list \<Rightarrow> orch_state" where
  "dispatch_all state acts = foldl orchestratorReducer state acts"

text \<open>
  What an awaited call of \<open>apiService\<close> produced: the promise is rejected with an error
  (\<open>request\<close> throws on a network failure, on a status that is not ok and on a body that
  is not JSON), or it is resolved with the parsed body. Every operation below awaits inside
  a \<open>try\<close> whose \<open>catch\<close> dispatches \<open>SET_ERROR\<close> with the error's message and
  throws the error again. Where an operation reads a property of the body, a body that
  is \<open>null\<close> throws a TypeError into the same \<open>catch\<close> before anything else is
  dispatched, and counts as \<open>Rejected\<close> with that message.
\<close>

datatype 'a awaited = Rejected string | Resolved 'a

text \<open>
  The body of \<open>/api/orchestrator/process\<close> as \<open>processQuery\<close> reads it:
  \<open>response.workflow\<close>, \<open>response.session\<close> and \<open>response.response\<close>.
\<close>

record process_response =
  pr_workflow :: "workflow option"
  pr_session :: "json option"
  pr_response :: "string option"

text \<open>
  The clock reads of \<open>processQuery\<close>: \<open>Date.now()\<close> and \<open>new Date().toISOString()\<close>
  for the user message, and again for the system message.
\<close>

record clock_reads =
  now_user :: nat
  iso_user :: string
  now_system :: nat
  iso_system :: string

text \<open>\<open>if (response.session)\<close>: a missing or null session is not stored.\<close>

fun json_truthy :: "json \<Rightarrow> bool" where
  "json_truthy JNull = False"
| "json_truthy (JBool b) = b"
| "json_truthy (JNum x) = (x \<noteq> 0)"
| "json_truthy (JStr s) = (s \<noteq> [])"
| "json_truthy (JArr xs) = True"
| "json_truthy (JObj kvs) = True"

definition session_supplied :: "json option \<Rightarrow> bool" where
  "session_supplied s = (case s of None \<Rightarrow> False | Some v \<Rightarrow> json_truthy v)"

definition processQuery :: "clock_reads \<Rightarrow> string \<Rightarrow> process_response awaited \<Rightarrow> action list" where
  "processQuery clk query outcome =
     [SET_LOADING True, SET_ERROR None,
      ADD_MESSAGE \<lparr> om_id = now_user clk, om_type = ''user'', om_content = Some query,
                    om_timestamp = iso_user clk, om_workflowId = None \<rparr>] @
     (case outcome of
        Rejected msg \<Rightarrow> [SET_ERROR (Some msg)]
      | Resolved response \<Rightarrow>
          [SET_WORKFLOW (pr_workflow response)] @
          (if session_supplied (pr_session response) then [SET_SESSION (pr_session response)] else []) @
          [ADD_MESSAGE \<lparr> om_id = now_system clk + 1, om_type = ''system'',
                         om_content = pr_response response, om_timestamp = iso_system clk,
                         om_workflowId = (case pr_workflow response of
                                            None \<Rightarrow> None | Some w \<Rightarrow> workflow_id w) \<rparr>])"

text \<open>
  The body of the workflow status endpoint as \<open>getWorkflowStatus\<close> reads it:
  \<open>status.agents\<close> (an object, here its entries in the order of \<open>Object.entries\<close>)
  and \<open>status.workflow\<close>.
\<close>

record status_response =
  sr_agents :: "(string \<times> string) list option"
  sr_workflow :: "workflow option"

definition getWorkflowStatus :: "status_response awaited \<Rightarrow> action list" where
  "getWorkflowStatus outcome =
     (case outcome of
        Rejected msg \<Rightarrow> [SET_ERROR (Some msg)]
      | Resolved st \<Rightarrow>
          (case sr_agents st of
             None \<Rightarrow> []
           | Some entries \<Rightarrow> map (\<lambda>(agentName, agentStatus). UPDATE_AGENT_STATUS agentName agentStatus) entries) @
          (case sr_workflow st of
             None \<Rightarrow> []
           | Some w \<Rightarrow> [SET_WORKFLOW (Some w)]))"

definition getReasoningTree :: "json awaited \<Rightarrow> action list" where
  "getReasoningTree outcome =
     (case outcome of
        Rejected msg \<Rightarrow> [SET_ERROR (Some msg)]
      | Resolved tree \<Rightarrow> [SET_REASONING_TREE (Some tree)])"

definition initializeSystem :: "json awaited \<Rightarrow> action list" where
  "initializeSystem outcome =
     SET_LOADING True #
     (case outcome of
        Rejected msg \<Rightarrow> [SET_ERROR (Some msg)]
      | Resolved st \<Rightarrow> [SET_SYSTEM_STATUS (Some st)])"

text \<open>
  \<open>cancelWorkflow\<close> awaits \<open>apiService.cancelWorkflow\<close>; its only use of the answer is
  whether the promise was resolved.
\<close>

definition cancelWorkflow :: "json awaited \<Rightarrow> action list" where
  "cancelWorkflow outcome =
     (case outcome of
        Rejected msg \<Rightarrow> [SET_ERROR (Some msg)]
      | Resolved _ \<Rightarrow> [CLEAR_WORKFLOW])"

definition clearError :: "action list" where
  "clearError = [SET_ERROR None]"

definition clearWorkflow :: "action list" where
  "clearWorkflow = [CLEAR_WORKFLOW]"




definition is_white_space :: "char \<Rightarrow> bool" where
  "is_white_space c = (c \<in> set [CHR '' '', CHR 0x09, CHR 0x0A, CHR 0x0B, CHR 0x0C, CHR 0x0D, CHR 0xA0])"

definition trim :: "string \<Rightarrow> string" where
  "trim s = rev (dropWhile is_white_space (rev (dropWhile is_white_space s)))"



section \<open>The chat context (ChatContext.jsx)\<close>

text \<open>The agent picked in the user interface: \<open>selectedAgent.key\<close> and \<open>selectedAgent.indian_name\<close>.\<close>

record selected_agent =
  agent_key :: string
  indian_name :: string

text \<open>
  A message of the chat: \<open>{id, type, content, timestamp, agent, intent, recommendations,
  warnings, executionTime}\<close>. A user or error message has no \<open>intent\<close>,
  \<open>recommendations\<close>, \<open>warnings\<close> or \<open>executionTime\<close> (\<open>None\<close>); \<open>agent\<close> is
  \<open>None\<close> when it is null or undefined. The message has no other field.
\<close>

record chat_message =
  cm_id :: nat
  cm_type :: string
  cm_content :: string
  cm_timestamp :: nat
  cm_agent :: "string option"
  cm_intent :: "json option"
  cm_recommendations :: "string list option"
  cm_warnings :: "string list option"
  cm_executionTime :: "json option"

text \<open>The four \<open>useState\<close> cells of \<open>ChatProvider\<close>.\<close>

record chat_state =
  chat_messages :: "chat_message list"
  chat_loading :: bool
  sessionId :: "string option"
  currentAgent :: "selected_agent option"

definition initial_chat :: chat_state where
  "initial_chat = \<lparr> chat_messages = [], chat_loading = False, sessionId = None, currentAgent = None \<rparr>"

text \<open>
  The parsed body of \<open>/api/orchestrator/process\<close>, by the properties \<open>sendMessage\<close>
  reads: \<open>success\<close>, \<open>response\<close>, \<open>error\<close>, \<open>session?.id\<close>, \<open>agent_details\<close> (here the
  list \<open>Object.keys\<close> gives for it), \<open>intent\<close>, \<open>recommendations\<close>, \<open>warnings\<close> and
  \<open>execution_time\<close>; a property that is missing or null is \<open>None\<close>. \<open>blockers\<close> is the
  list the client boundary of the specification puts in a response; \<open>sendMessage\<close> never
  reads it.
\<close>

record orchestrator_reply =
  data_success :: "bool option"
  data_response :: "string option"
  data_error :: "string option"
  data_session_id :: "string option"
  data_agent_details :: "string list option"
  data_intent :: "json option"
  data_recommendations :: "string list option"
  data_warnings :: "string list option"
  data_execution_time :: "json option"
  data_blockers :: "string list option"

text \<open>
  What \<open>await response.json()\<close> gives: it throws (the body is not JSON), or the body
  is the JSON value \<open>null\<close>, or it is a value whose properties can be read.
\<close>

datatype reply_body = NotJson | JsonNull | JsonValue orchestrator_reply

text \<open>
  What \<open>await fetch(...)\<close> gives: an exception with its message (also one thrown by
  \<open>getAuthHeaders\<close>), or a response with \<open>response.ok\<close> and a body, or nothing:
  \<open>fetch\<close> is called without a timeout or an abort signal, and a promise that never
  settles (\<open>FetchPending\<close>) leaves the call suspended at the \<open>await\<close> for good.
\<close>

datatype fetch_outcome = FetchThrew string | FetchResponse bool reply_body | FetchPending

text \<open>
  The clock reads of one \<open>sendMessage\<close>: \<open>Date.now()\<close> and \<open>new Date()\<close> for the
  user message, and again for the one message built after the answer.
\<close>

record chat_clock =
  user_id :: nat
  user_time :: nat
  reply_id :: nat
  reply_time :: nat

text \<open>
  What \<open>sendMessage\<close> returns: \<open>{success: true, data}\<close> or \<open>{success: false, error}\<close>
  (and \<open>None\<close> below when it never returns).
\<close>

datatype send_result = SendSuccess orchestrator_reply | SendFailure string

text \<open>JavaScript truthiness of a string that may be missing, and \<open>a || b\<close> on such values.\<close>

definition truthy :: "string option \<Rightarrow> bool" where
  "truthy v = (case v of None \<Rightarrow> False | Some s \<Rightarrow> s \<noteq> [])"

definition or_else :: "string option \<Rightarrow> string \<Rightarrow> string" where
  "or_else v d = (case v of None \<Rightarrow> d | Some s \<Rightarrow> if s = [] then d else s)"

text \<open>\<open>xs || []\<close> on a list that may be missing (an empty array is truthy).\<close>

definition or_empty :: "string list option \<Rightarrow> string list" where
  "or_empty v = (case v of None \<Rightarrow> [] | Some xs \<Rightarrow> xs)"

text \<open>\<open>data = { success: false, response: 'Unexpected server response.' }\<close>\<close>

definition unexpected_reply :: orchestrator_reply where
  "unexpected_reply = \<lparr> data_success = Some False, data_response = Some ''Unexpected server response.'',
     data_error = None, data_session_id = None, data_agent_details = None, data_intent = None,
     data_recommendations = None, data_warnings = None, data_execution_time = None,
     data_blockers = None \<rparr>"

text \<open>
  The message of the TypeError that \<open>data.session\<close> raises when \<open>data\<close> is null (the
  text is the engine's; this is V8's).
\<close>

definition null_session_error :: string where
  "null_session_error = ''Cannot read properties of null (reading '' @ [CHR 0x27] @ ''session'' @ [CHR 0x27] @ '')''"

definition userMessage :: "chat_clock \<Rightarrow> string \<Rightarrow> selected_agent option \<Rightarrow> chat_message" where
  "userMessage clk message selectedAgent =
     \<lparr> cm_id = user_id clk, cm_type = ''user'', cm_content = message, cm_timestamp = user_time clk,
       cm_agent = map_option indian_name selectedAgent, cm_intent = None,
       cm_recommendations = None, cm_warnings = None, cm_executionTime = None \<rparr>"

definition errorAssistant :: "chat_clock \<Rightarrow> string \<Rightarrow> chat_message" where
  "errorAssistant clk serverMsg =
     \<lparr> cm_id = reply_id clk + 1, cm_type = ''assistant'', cm_content = serverMsg,
       cm_timestamp = reply_time clk, cm_agent = None, cm_intent = None,
       cm_recommendations = None, cm_warnings = None, cm_executionTime = None \<rparr>"

definition assistantMessage :: "chat_clock \<Rightarrow> orchestrator_reply \<Rightarrow> chat_message" where
  "assistantMessage clk data =
     \<lparr> cm_id = reply_id clk + 1, cm_type = ''assistant'',
       cm_content = or_else (data_response data) ''No response received'',
       cm_timestamp = reply_time clk,
       cm_agent = (case data_agent_details data of
                     None \<Rightarrow> None
                   | Some ks \<Rightarrow> (case ks of [] \<Rightarrow> None | k # _ \<Rightarrow> Some k)),
       cm_intent = data_intent data,
       cm_recommendations = Some (or_empty (data_recommendations data)),
       cm_warnings = Some (or_empty (data_warnings data)),
       cm_executionTime = data_execution_time data \<rparr>"

definition errorMessage :: "chat_clock \<Rightarrow> string \<Rightarrow> chat_message" where
  "errorMessage clk msg =
     \<lparr> cm_id = reply_id clk + 1, cm_type = ''error'', cm_content = ''Error: '' @ msg,
       cm_timestamp = reply_time clk, cm_agent = None, cm_intent = None,
       cm_recommendations = None, cm_warnings = None, cm_executionTime = None \<rparr>"

text \<open>\<open>setMessages(prev => [...prev, m])\<close>\<close>

definition append_message :: "chat_message \<Rightarrow> chat_state \<Rightarrow> chat_state" where
  "append_message m st = st\<lparr>chat_messages := chat_messages st @ [m]\<rparr>"

text \<open>
  \<open>sendMessage\<close>: the \<open>try\<close> block up to the first exception, the \<open>catch\<close> block
  (\<open>caught\<close>) and the \<open>finally\<close> block (\<open>finish\<close>). It returns the result and the
  state after all its updates; when the fetch never settles there is no result, and
  the state stays as it was set before the \<open>await\<close>.
\<close>

definition sendMessage ::
  "chat_clock \<Rightarrow> string \<Rightarrow> selected_agent option \<Rightarrow> fetch_outcome \<Rightarrow> chat_state
     \<Rightarrow> send_result option \<times> chat_state" where
  "sendMessage clk message selectedAgent outcome st =
     (let st1 = append_message (userMessage clk message selectedAgent) (st\<lparr>chat_loading := True\<rparr>);
          caught = (\<lambda>msg. (SendFailure msg, append_message (errorMessage clk msg) st1));
          finish = (\<lambda>(result, st2). (Some result, st2\<lparr>chat_loading := False\<rparr>))
      in case outcome of
           FetchPending \<Rightarrow> (None, st1)
         | FetchThrew msg \<Rightarrow> finish (caught msg)
         | FetchResponse ok body \<Rightarrow>
             finish
                 (let data = (case body of NotJson \<Rightarrow> Some unexpected_reply
                                         | JsonNull \<Rightarrow> None
                                         | JsonValue d \<Rightarrow> Some d)
                  in if \<not> ok \<or> (case data of None \<Rightarrow> False | Some d \<Rightarrow> data_success d = Some False)
                     then (let serverMsg =
                                 (case data of
                                    None \<Rightarrow> ''Failed to send message''
                                  | Some d \<Rightarrow> or_else (data_response d)
                                               (or_else (data_error d) ''Failed to send message''))
                           in (SendFailure serverMsg, append_message (errorAssistant clk serverMsg) st1))
                     else (case data of
                             None \<Rightarrow> caught null_session_error
                           | Some d \<Rightarrow>
                               (SendSuccess d,
                                append_message (assistantMessage clk d)
                                  (if truthy (data_session_id d)
                                   then st1\<lparr>sessionId := data_session_id d\<rparr> else st1)))))"

definition clearChat :: "chat_state \<Rightarrow> chat_state" where
  "clearChat st = st\<lparr>chat_messages := [], sessionId := None, currentAgent := None\<rparr>"

section \<open>The SuperAgent chat page (class SuperAgentChat)\<close>

text \<open>
  The body of \<open>/super-agent/query\<close> by the properties the class reads: \<open>success\<close>,
  \<open>response\<close>, \<open>agent_responses\<close> (of each entry, \<open>agent_name\<close>), \<open>recommendations\<close>
  and \<open>warnings\<close>; \<open>blockers\<close> as above, never read.
\<close>

record agent_response =
  ar_agent_name :: string

record super_agent_reply =
  sa_success :: "bool option"
  sa_response :: "string option"
  sa_agent_responses :: "agent_response list option"
  sa_recommendations :: "string list option"
  sa_warnings :: "string list option"
  sa_blockers :: "string list option"

text \<open>
  A message element that \<open>addMessage\<close> appends to \<open>#chat-messages\<close>, by the parts its
  template is filled with: the type (it also decides the avatar), the formatted text,
  the time and the details block (empty when there is none).
\<close>

record message_div =
  md_type :: string
  md_text :: string
  md_time :: string
  md_details :: string

text \<open>
  The elements of the chat that the class adds or looks up, in document order: the
  message elements, the typing indicator element (\<open>id = 'typing-indicator'\<close>), and
  every other element with that id. \<open>addMessage\<close> writes the text and the details into
  \<open>innerHTML\<close> without escaping, so markup in a message makes the browser create
  elements inside it; an \<open>InjectedIndicator\<close> is such an element with the id
  \<open>typing-indicator\<close>, standing after the message that holds it. The page outside
  \<open>#chat-messages\<close> (not among the sources) is taken to have no element with the id.
\<close>

datatype chat_node = MessageDiv message_div | InjectedIndicator | TypingIndicator

fun carries_indicator_id :: "chat_node \<Rightarrow> bool" where
  "carries_indicator_id (MessageDiv m) = False"
| "carries_indicator_id InjectedIndicator = True"
| "carries_indicator_id TypingIndicator = True"

text \<open>
  The fields of the object that \<open>sendMessage\<close> and \<open>setLoading\<close> touch: the elements
  of \<open>this.chatMessages\<close>, \<open>this.chatInput.value\<close>, \<open>this.isLoading\<close>, the two
  \<open>disabled\<close> flags and the \<open>show\<close> class of the loading overlay.
\<close>

record super_agent_chat =
  chatMessages :: "chat_node list"
  chatInput :: string
  isLoading :: bool
  sendButton_disabled :: bool
  chatInput_disabled :: bool
  loadingOverlay_shown :: bool

text \<open>\<open>content.replace(/\n/g, '<br>')\<close>\<close>

definition formatMessage :: "string \<Rightarrow> string" where
  "formatMessage content = concat (map (\<lambda>c. if c = CHR 0x0A then ''<br>'' else [c]) content)"

text \<open>\<open>items.forEach(item => { html += piece(item) })\<close>\<close>

definition append_each :: "(string \<Rightarrow> string) \<Rightarrow> string list \<Rightarrow> string \<Rightarrow> string" where
  "append_each piece items html = foldl (\<lambda>acc item. acc @ piece item) html items"

definition agent_tag :: "string \<Rightarrow> string" where
  \<open>agent_tag agent = ''<span class="agent-tag">'' @ agent @ ''</span>''\<close>

definition list_item :: "string \<Rightarrow> string" where
  "list_item rec = ''<li>'' @ rec @ ''</li>''"

definition createAgentResponseDetails :: "super_agent_reply \<Rightarrow> string" where
  \<open>createAgentResponseDetails responseData =
     (case sa_agent_responses responseData of
        None \<Rightarrow> []
      | Some agent_responses \<Rightarrow>
          if length agent_responses = 0 then []
          else
            (let detailsHtml = ''<div class="agent-response-details">'';
                 detailsHtml = detailsHtml @ ''<h4>Agent Analysis</h4>'';
                 usedAgents = map ar_agent_name agent_responses;
                 detailsHtml = detailsHtml @ ''<div class="agent-list-details">'';
                 detailsHtml = append_each agent_tag usedAgents detailsHtml;
                 detailsHtml = detailsHtml @ ''</div>'';
                 detailsHtml =
                   (case sa_recommendations responseData of
                      None \<Rightarrow> detailsHtml
                    | Some recommendations \<Rightarrow>
                        if length recommendations > 0
                        then (let h = detailsHtml @ ''<div class="recommendations">'';
                                  h = h @ ''<h5>Recommendations</h5><ul>'';
                                  h = append_each list_item recommendations h
                              in h @ ''</ul></div>'')
                        else detailsHtml);
                 detailsHtml =
                   (case sa_warnings responseData of
                      None \<Rightarrow> detailsHtml
                    | Some warnings \<Rightarrow>
                        if length warnings > 0
                        then (let h = detailsHtml @ ''<div class="warnings">'';
                                  h = h @ ''<h5>Warnings</h5><ul>'';
                                  h = append_each list_item warnings h
                              in h @ ''</ul></div>'')
                        else detailsHtml)
             in detailsHtml @ ''</div>''))\<close>

text \<open>
  \<open>addMessage(type, content, responseData)\<close> with a string \<open>content\<close>; \<open>time\<close> is the
  clock read \<open>toLocaleTimeString\<close>. The details are added when \<open>responseData\<close> and its
  \<open>agent_responses\<close> are there. \<open>injected\<close> is the number of elements with the id
  \<open>typing-indicator\<close> that the browser creates inside the new message when it parses
  its \<open>innerHTML\<close> (none when the text and the details hold no markup).
\<close>

definition addMessage ::
  "string \<Rightarrow> string \<Rightarrow> string \<Rightarrow> nat \<Rightarrow> super_agent_reply option \<Rightarrow> super_agent_chat
     \<Rightarrow> super_agent_chat" where
  "addMessage type content time injected responseData chat =
     chat\<lparr>chatMessages := chatMessages chat @
       MessageDiv \<lparr> md_type = type, md_text = formatMessage content, md_time = time,
                    md_details = (case responseData of
                                    None \<Rightarrow> []
                                  | Some r \<Rightarrow> (case sa_agent_responses r of
                                                None \<Rightarrow> []
                                              | Some _ \<Rightarrow> createAgentResponseDetails r)) \<rparr>
       # replicate injected InjectedIndicator\<rparr>"

definition setLoading :: "bool \<Rightarrow> super_agent_chat \<Rightarrow> super_agent_chat" where
  "setLoading l chat = chat\<lparr>isLoading := l, sendButton_disabled := l, chatInput_disabled := l,
                             loadingOverlay_shown := l\<rparr>"

definition addTypingIndicator :: "super_agent_chat \<Rightarrow> super_agent_chat" where
  "addTypingIndicator chat = chat\<lparr>chatMessages := chatMessages chat @ [TypingIndicator]\<rparr>"

text \<open>
  \<open>document.getElementById('typing-indicator')\<close> finds the first element with the id
  in document order, whichever it is, and \<open>remove()\<close> takes that element out.
\<close>

fun remove_first_indicator :: "chat_node list \<Rightarrow> chat_node list" where
  "remove_first_indicator [] = []"
| "remove_first_indicator (n # ns) =
     (if carries_indicator_id n then ns else n # remove_first_indicator ns)"

definition removeTypingIndicator :: "super_agent_chat \<Rightarrow> super_agent_chat" where
  "removeTypingIndicator chat = chat\<lparr>chatMessages := remove_first_indicator (chatMessages chat)\<rparr>"

definition error_processing :: string where
  "error_processing = ''Sorry, I encountered an error processing your request. Please try again.''"

definition error_connecting :: string where
  "error_connecting = ''Sorry, I'' @ [CHR 0x27] @
     ''m having trouble connecting to the server. Please check your connection and try again.''"

text \<open>
  What \<open>await this.callSuperAgentAPI(message)\<close> gives: it throws (\<open>ApiThrew\<close>: the
  network failed, the status was not ok, the body was not JSON), or it returns the
  parsed body (\<open>ApiReturned\<close>; \<open>None\<close> is the JSON value \<open>null\<close>, on which
  \<open>response.success\<close> throws), or the fetch, called without a timeout, never settles
  (\<open>ApiPending\<close>).
\<close>

datatype api_outcome = ApiThrew string | ApiReturned "super_agent_reply option" | ApiPending

text \<open>
  \<open>SuperAgentChat.sendMessage\<close>. \<open>addMessage('assistant', response.response, response)\<close>
  throws in \<open>formatMessage\<close> when \<open>response.response\<close> is missing, before anything is
  appended. \<open>caught\<close> is the \<open>catch\<close> block (its text holds no markup); \<open>setLoading
  False\<close> is the \<open>finally\<close> block, which a fetch that never settles does not reach.
\<close>

definition SuperAgentChat_sendMessage ::
  "string \<Rightarrow> nat \<Rightarrow> string \<Rightarrow> nat \<Rightarrow> api_outcome \<Rightarrow> super_agent_chat \<Rightarrow> super_agent_chat" where
  "SuperAgentChat_sendMessage time_user injected_user time_reply injected_reply outcome chat =
     (let message = trim (chatInput chat) in
      if message = [] \<or> isLoading chat then chat
      else
        (let c1 = addMessage ''user'' message time_user injected_user None chat;
             c2 = c1\<lparr>chatInput := []\<rparr>;
             c3 = setLoading True c2;
             c4 = addTypingIndicator c3;
             caught = (\<lambda>c. addMessage ''system'' error_connecting time_reply 0 None (removeTypingIndicator c))
         in case outcome of
              ApiPending \<Rightarrow> c4
            | ApiThrew err \<Rightarrow> setLoading False (caught c4)
            | ApiReturned response \<Rightarrow>
                setLoading False
                  (let c = removeTypingIndicator c4 in
                   case response of
                     None \<Rightarrow> caught c
                   | Some r \<Rightarrow>
                       if sa_success r = Some True
                       then (case sa_response r of
                               None \<Rightarrow> caught c
                             | Some text \<Rightarrow> addMessage ''assistant'' text time_reply injected_reply (Some r) c)
                       else addMessage ''system'' error_processing time_reply 0 None c)))"

section \<open>Session ids (generateSessionId, DashboardLayout)\<close>

text \<open>
  \<open>'session_' + Date.now() + '_' + Math.random().toString(36).substr(2, 9)\<close>.
  \<open>Date.now()\<close> is a count of milliseconds, written in decimal by \<open>+\<close>;
  \<open>random36\<close> is the string \<open>Math.random().toString(36)\<close>.
\<close>

definition digit_char :: "nat \<Rightarrow> char" where
  "digit_char d = ''0123456789'' ! d"

function show_nat :: "nat \<Rightarrow> string" where
  "show_nat n = (if n < 10 then [digit_char n] else show_nat (n div 10) @ [digit_char (n mod 10)])"
  by pat_completeness auto
termination
  by (relation "measure id") auto

declare show_nat.simps [simp del]

definition substr :: "nat \<Rightarrow> nat \<Rightarrow> string \<Rightarrow> string" where
  "substr start len s = take len (drop start s)"

definition generateSessionId :: "nat \<Rightarrow> string \<Rightarrow> string" where
  "generateSessionId now random36 = ''session_'' @ show_nat now @ ''_'' @ substr 2 9 random36"

section \<open>Confidence of the fertilizer advisor\<close>

text \<open>
  Modelled from the spec: \<open>fertilizer_advisor.py\<close> is not among the sources; its
  design summary (DESIGN_SUMMARY.md) gives the rule, "Base 0.85, -0.10 for group, -0.20
  for generic", the three data sources "exact", "group", "generic", and the confidence
  0.0 of a blocked response.
\<close>

datatype rdf_source = Exact | Group | Generic

definition base_confidence :: real where
  "base_confidence = 0.85"

fun confidence_deduction :: "rdf_source \<Rightarrow> real" where
  "confidence_deduction Exact = 0"
| "confidence_deduction Group = 0.10"
| "confidence_deduction Generic = 0.20"

definition adjusted_confidence :: "rdf_source \<Rightarrow> real" where
  "adjusted_confidence src = base_confidence - confidence_deduction src"

text \<open>
  Modelled from the spec: the confidence of an output, blocked (\<open>create_blocked_response\<close>,
  0.0 in the summary's test results) or not (\<open>create_ok_response\<close>).
\<close>

definition output_confidence :: "bool \<Rightarrow> rdf_source \<Rightarrow> real" where
  "output_confidence blocked src = (if blocked then 0 else adjusted_confidence src)"

section \<open>The aggregator\<close>

text \<open>
  Modelled from the spec: the aggregator runs on the server and is not among the
  sources. Section 3 gives the AgentOutput; section 4.5 gives the recommendations of
  the aggregated response: "recommendations ordered by descending confidence with ties
  broken by adapter invocation order". The outputs are listed in adapter invocation
  order.
\<close>

datatype output_status = StatusOk | StatusBlocked | StatusError





section \<open>The Task state machine\<close>




section \<open>Vocabulary of the properties\<close>

text \<open>
  An action that can change the recorded status of agent \<open>n\<close>: a status update naming
  it, or the clearing of the workflow.
\<close>

definition touches_status :: "string \<Rightarrow> action \<Rightarrow> bool" where
  "touches_status n a =
     (case a of UPDATE_AGENT_STATUS m _ \<Rightarrow> m = n | CLEAR_WORKFLOW \<Rightarrow> True | _ \<Rightarrow> False)"


text \<open>A chat message with nothing but an id, a type, a text, a time and an agent.\<close>

abbreviation plain_message :: "nat \<Rightarrow> string \<Rightarrow> string \<Rightarrow> nat \<Rightarrow> string option \<Rightarrow> chat_message" where
  "plain_message i ty text time agent \<equiv>
     \<lparr> cm_id = i, cm_type = ty, cm_content = text, cm_timestamp = time, cm_agent = agent,
       cm_intent = None, cm_recommendations = None, cm_warnings = None, cm_executionTime = None \<rparr>"

text \<open>Every text a chat message carries for display.\<close>

definition message_texts :: "chat_message \<Rightarrow> string list" where
  "message_texts m =
     cm_content m # (case cm_agent m of None \<Rightarrow> [] | Some a \<Rightarrow> [a]) @
     or_empty (cm_recommendations m) @ or_empty (cm_warnings m)"

text \<open>The message elements of the page, without the elements that carry the indicator's id.\<close>

abbreviation message_elements :: "chat_node list \<Rightarrow> chat_node list" where
  "message_elements ns \<equiv> filter (\<lambda>n. \<not> carries_indicator_id n) ns"

text \<open>A message element by its four parts, and a text with its line breaks written as \<open>br\<close>.\<close>

abbreviation page_message :: "string \<Rightarrow> string \<Rightarrow> string \<Rightarrow> string \<Rightarrow> chat_node" where
  "page_message ty text time details \<equiv>
     MessageDiv \<lparr>md_type = ty, md_text = text, md_time = time, md_details = details\<rparr>"

abbreviation br_text :: "string \<Rightarrow> string" where
  "br_text content \<equiv> concat (map (\<lambda>c. if c = CHR 0x0A then ''<br>'' else [c]) content)"

text \<open>The two apologies of the page, as it shows them.\<close>

abbreviation apology_connecting :: string where
  "apology_connecting \<equiv> ''Sorry, I'' @ [CHR 0x27] @
     ''m having trouble connecting to the server. Please check your connection and try again.''"

abbreviation apology_processing :: string where
  "apology_processing \<equiv> ''Sorry, I encountered an error processing your request. Please try again.''"

section \<open>Example inputs\<close>

text \<open>A workflow with one running task, as the state holds it after a status poll.\<close>

definition running_state :: orch_state where
  "running_state = initialState
     \<lparr> currentWorkflow := Some \<lparr>workflow_id = Some ''wf-1'',
          tasks = Some [\<lparr>agent_name = ''soil_health_agent'', status = ''running''\<rparr>]\<rparr>,
       agentStatuses := [''soil_health_agent'' \<mapsto> ''running''] \<rparr>"




text \<open>
  Scenario B of the specification as the server would answer it: the fertilizer
  advisor is blocked by the soil moisture, another adapter recommends urea.
\<close>

definition moisture_blocker :: string where
  "moisture_blocker = ''soil moisture too high for fertilizer application''"

definition blocked_reply :: orchestrator_reply where
  "blocked_reply = \<lparr> data_success = Some True, data_response = Some ''Apply 20kg urea'',
     data_error = None, data_session_id = Some ''s1'', data_agent_details = Some [''fertilizer_advisor''],
     data_intent = None, data_recommendations = Some [''Apply 20kg urea''], data_warnings = None,
     data_execution_time = None, data_blockers = Some [moisture_blocker] \<rparr>"

definition blocked_super_reply :: super_agent_reply where
  "blocked_super_reply = \<lparr> sa_success = Some True, sa_response = Some ''Apply 20kg urea'',
     sa_agent_responses = Some [\<lparr>ar_agent_name = ''fertilizer_advisor''\<rparr>],
     sa_recommendations = Some [''Apply 20kg urea''], sa_warnings = None,
     sa_blockers = Some [moisture_blocker] \<rparr>"

text \<open>
  An error answer of the server (status 500), a reply the SuperAgent server marks as
  failed, one without a text, and one with ranked recommendations but no
  \<open>agent_responses\<close>.
\<close>

definition server_error_reply :: orchestrator_reply where
  "server_error_reply = \<lparr> data_success = None, data_response = None,
     data_error = Some ''Internal Server Error'', data_session_id = None, data_agent_details = None,
     data_intent = None, data_recommendations = None, data_warnings = None,
     data_execution_time = None, data_blockers = None \<rparr>"

definition refused_super_reply :: super_agent_reply where
  "refused_super_reply = \<lparr> sa_success = Some False, sa_response = None,
     sa_agent_responses = None, sa_recommendations = None, sa_warnings = None, sa_blockers = None \<rparr>"

definition textless_super_reply :: super_agent_reply where
  "textless_super_reply = \<lparr> sa_success = Some True, sa_response = None,
     sa_agent_responses = None, sa_recommendations = None, sa_warnings = None, sa_blockers = None \<rparr>"

definition ranked_super_reply :: super_agent_reply where
  "ranked_super_reply = \<lparr> sa_success = Some True, sa_response = Some ''Feed the soil first.'',
     sa_agent_responses = None,
     sa_recommendations = Some [''Apply 20kg urea'', ''Spread compost'', ''Add lime'', ''Test soil pH''],
     sa_warnings = None, sa_blockers = None \<rparr>"

definition clock0 :: chat_clock where
  "clock0 = \<lparr> user_id = 1700000000000, user_time = 1700000000000,
                reply_id = 1700000000900, reply_time = 1700000000900 \<rparr>"




definition idle_chat :: super_agent_chat where
  "idle_chat = \<lparr> chatMessages = [], chatInput = ''Which fertilizer for wheat? '', isLoading = False,
     sendButton_disabled = False, chatInput_disabled = False, loadingOverlay_shown = False \<rparr>"

text \<open>The same page with a question that holds markup: an element with the indicator's id.\<close>

definition markup_chat :: super_agent_chat where
  \<open>markup_chat = idle_chat\<lparr>chatInput := ''<i id="typing-indicator"></i>Which fertilizer?''\<rparr>\<close>

section \<open>Properties of the orchestrator context\<close>

lemma reducer_messages_prefix:
  "prefix (messages state) (messages (orchestratorReducer state a))"
  by (cases a) simp_all

lemma dispatch_all_messages_prefix:
  "prefix (messages state) (messages (dispatch_all state acts))"
  unfolding dispatch_all_def
proof (induction acts arbitrary: state)
  case Nil
  show ?case by simp
next
  case (Cons a acts)
  have "prefix (messages state) (messages (orchestratorReducer state a))"
    by (rule reducer_messages_prefix)
  also have "prefix \<dots> (messages (foldl orchestratorReducer (orchestratorReducer state a) acts))"
    by (rule Cons.IH)
  finally show ?case by simp
qed

lemma reducer_status_untouched:
  "\<not> touches_status n a \<Longrightarrow> agentStatuses (orchestratorReducer state a) n = agentStatuses state n"
  by (cases a) (simp_all add: touches_status_def)

lemma dispatch_status_untouched:
  "\<forall>a \<in> set acts. \<not> touches_status n a \<Longrightarrow>
   agentStatuses (dispatch_all state acts) n = agentStatuses state n"
  unfolding dispatch_all_def
  by (induction acts arbitrary: state) (simp_all add: reducer_status_untouched)


text \<open>
  C10. The \<open>CLEAR_WORKFLOW\<close> transition, and a cancellation the server acknowledged
  (which dispatches exactly that action) as well as \<open>clearWorkflow\<close>, reset
  \<open>currentWorkflow\<close>, \<open>agentStatuses\<close>, \<open>reasoningTree\<close> and \<open>error\<close> and leave
  \<open>messages\<close>, \<open>session\<close>, \<open>systemStatus\<close> and \<open>loading\<close> as they were.
\<close>

theorem clear_workflow_frame:
  "orchestratorReducer state CLEAR_WORKFLOW =
     state\<lparr>currentWorkflow := None, agentStatuses := Map.empty, reasoningTree := None, error := None\<rparr>
   \<and> dispatch_all state (cancelWorkflow (Resolved ack)) = orchestratorReducer state CLEAR_WORKFLOW
   \<and> dispatch_all state clearWorkflow = orchestratorReducer state CLEAR_WORKFLOW
   \<and> messages (orchestratorReducer state CLEAR_WORKFLOW) = messages state
   \<and> session (orchestratorReducer state CLEAR_WORKFLOW) = session state
   \<and> systemStatus (orchestratorReducer state CLEAR_WORKFLOW) = systemStatus state
   \<and> loading (orchestratorReducer state CLEAR_WORKFLOW) = loading state
   \<and> currentWorkflow (orchestratorReducer state CLEAR_WORKFLOW) = None
   \<and> agentStatuses (orchestratorReducer state CLEAR_WORKFLOW) = Map.empty
   \<and> reasoningTree (orchestratorReducer state CLEAR_WORKFLOW) = None
   \<and> error (orchestratorReducer state CLEAR_WORKFLOW) = None"
  by (simp add: dispatch_all_def cancelWorkflow_def clearWorkflow_def)

text \<open>
  C5, as the code has it. The reducer stores the status of the latest
  \<open>UPDATE_AGENT_STATUS\<close> that names a task, whatever status the task had before, and
  keeps it through every later action that is neither an update naming that task nor
  \<open>CLEAR_WORKFLOW\<close>. The order \<open>pending\<close>, \<open>running\<close>, terminal is the server's to keep:
  the reducer has no check of its own.
\<close>

theorem status_last_report_wins:
  "agentStatuses (dispatch_all state (acts @ [UPDATE_AGENT_STATUS n st])) n = Some st
   \<and> ((\<forall>a \<in> set later. \<not> touches_status n a) \<longrightarrow>
        agentStatuses (dispatch_all state (acts @ [UPDATE_AGENT_STATUS n st] @ later)) n = Some st)"
proof -
  have one: "agentStatuses (dispatch_all state (acts @ [UPDATE_AGENT_STATUS n st])) n = Some st"
    by (simp add: dispatch_all_def)
  have "agentStatuses (dispatch_all state (acts @ [UPDATE_AGENT_STATUS n st] @ later)) n = Some st"
    if "\<forall>a \<in> set later. \<not> touches_status n a"
  proof -
    have "dispatch_all state (acts @ [UPDATE_AGENT_STATUS n st] @ later)
          = dispatch_all (dispatch_all state (acts @ [UPDATE_AGENT_STATUS n st])) later"
      by (simp add: dispatch_all_def)
    then show ?thesis using that one by (simp add: dispatch_status_untouched)
  qed
  with one show ?thesis by blast
qed

theorem status_last_report_wins_witness:
  "\<not> touches_status ''soil_health_agent'' (SET_LOADING True)
   \<and> \<not> touches_status ''soil_health_agent'' (UPDATE_AGENT_STATUS ''weather_watcher_agent'' ''running'')
   \<and> agentStatuses (dispatch_all initialState
         ([UPDATE_AGENT_STATUS ''soil_health_agent'' ''running''] @
          [UPDATE_AGENT_STATUS ''soil_health_agent'' ''completed''] @
          [SET_LOADING True, UPDATE_AGENT_STATUS ''weather_watcher_agent'' ''running'']))
        ''soil_health_agent'' = Some ''completed''"
  using status_last_report_wins [of initialState "[UPDATE_AGENT_STATUS ''soil_health_agent'' ''running'']"
      "''soil_health_agent''" "''completed''"
      "[SET_LOADING True, UPDATE_AGENT_STATUS ''weather_watcher_agent'' ''running'']"]
  by (simp add: touches_status_def)

text \<open>
  C5 as stated fails: two polls of the workflow status, the first reporting the task
  \<open>completed\<close>, the second \<open>running\<close>, leave the task \<open>running\<close> again.
\<close>

theorem status_regression_counterexample:
  "agentStatuses (dispatch_all initialState
      (getWorkflowStatus (Resolved \<lparr>sr_agents = Some [(''soil_health_agent'', ''completed'')], sr_workflow = None\<rparr>)))
      ''soil_health_agent'' = Some ''completed''
   \<and> agentStatuses (dispatch_all (dispatch_all initialState
      (getWorkflowStatus (Resolved \<lparr>sr_agents = Some [(''soil_health_agent'', ''completed'')], sr_workflow = None\<rparr>)))
      (getWorkflowStatus (Resolved \<lparr>sr_agents = Some [(''soil_health_agent'', ''running'')], sr_workflow = None\<rparr>)))
      ''soil_health_agent'' = Some ''running''"
  by (simp add: dispatch_all_def getWorkflowStatus_def initialState_def)

text \<open>
  C7, as the code has it. A cancellation the server acknowledged removes the workflow
  and every task status from the state (no task is left \<open>pending\<close> or \<open>running\<close>, none
  is marked \<open>failed\<close>) and resets \<open>reasoningTree\<close> and \<open>error\<close>; a cancellation the
  server rejected only records the error and clears \<open>loading\<close>. A status that is
  reported after the cancellation is stored like any other.
\<close>

theorem cancel_clears_workflow:
  "dispatch_all state (cancelWorkflow (Resolved ack)) =
     state\<lparr>currentWorkflow := None, agentStatuses := Map.empty, reasoningTree := None, error := None\<rparr>
   \<and> agentStatuses (dispatch_all state (cancelWorkflow (Resolved ack))) n = None
   \<and> dispatch_all state (cancelWorkflow (Rejected msg)) = state\<lparr>error := Some msg, loading := False\<rparr>
   \<and> agentStatuses (dispatch_all (dispatch_all state (cancelWorkflow (Resolved ack)))
        [UPDATE_AGENT_STATUS n st]) n = Some st"
  by (simp add: dispatch_all_def cancelWorkflow_def)

text \<open>
  C7 as stated fails: after the cancellation of a workflow with a running task, the
  task is not \<open>failed\<close> (it has no status), there is no workflow to be \<open>completed\<close>, no
  error detail is recorded, and the task's late result is stored, not discarded.
\<close>

theorem cancel_counterexample:
  "agentStatuses running_state ''soil_health_agent'' = Some ''running''
   \<and> agentStatuses (dispatch_all running_state (cancelWorkflow (Resolved (JObj [])))) ''soil_health_agent'' \<noteq> Some ''failed''
   \<and> currentWorkflow (dispatch_all running_state (cancelWorkflow (Resolved (JObj [])))) = None
   \<and> error (dispatch_all running_state (cancelWorkflow (Resolved (JObj [])))) = None
   \<and> agentStatuses (dispatch_all (dispatch_all running_state (cancelWorkflow (Resolved (JObj []))))
        (getWorkflowStatus (Resolved \<lparr>sr_agents = Some [(''soil_health_agent'', ''completed'')], sr_workflow = None\<rparr>)))
        ''soil_health_agent'' = Some ''completed''"
  by (simp add: dispatch_all_def cancelWorkflow_def getWorkflowStatus_def running_state_def initialState_def)






section \<open>Properties of the chat context\<close>

lemma or_else_cases:
  "or_else None dflt = dflt" "or_else (Some []) dflt = dflt" "or_else (Some (c # cs)) dflt = c # cs"
  by (simp_all add: or_else_def)

lemma or_empty_cases: "or_empty None = []" "or_empty (Some xs) = xs"
  by (simp_all add: or_empty_def)

lemma sendMessage_pending:
  "sendMessage clk message ag FetchPending st =
     (None, st\<lparr>chat_loading := True,
               chat_messages := chat_messages st @
                 [plain_message (user_id clk) ''user'' message (user_time clk) (map_option indian_name ag)]\<rparr>)"
  by (simp add: sendMessage_def append_message_def userMessage_def Let_def)

lemma sendMessage_threw:
  "sendMessage clk message ag (FetchThrew err) st =
     (Some (SendFailure err),
      st\<lparr>chat_loading := False,
         chat_messages := chat_messages st @
           [plain_message (user_id clk) ''user'' message (user_time clk) (map_option indian_name ag),
            plain_message (reply_id clk + 1) ''error'' (''Error: '' @ err) (reply_time clk) None]\<rparr>)"
  by (simp add: sendMessage_def append_message_def userMessage_def errorMessage_def Let_def)

lemma sendMessage_not_json:
  "sendMessage clk message ag (FetchResponse ok NotJson) st =
     (Some (SendFailure ''Unexpected server response.''),
      st\<lparr>chat_loading := False,
         chat_messages := chat_messages st @
           [plain_message (user_id clk) ''user'' message (user_time clk) (map_option indian_name ag),
            plain_message (reply_id clk + 1) ''assistant'' ''Unexpected server response.''
              (reply_time clk) None]\<rparr>)"
  by (simp add: sendMessage_def append_message_def userMessage_def errorAssistant_def Let_def
      unexpected_reply_def or_else_def)

lemma sendMessage_null_not_ok:
  "sendMessage clk message ag (FetchResponse False JsonNull) st =
     (Some (SendFailure ''Failed to send message''),
      st\<lparr>chat_loading := False,
         chat_messages := chat_messages st @
           [plain_message (user_id clk) ''user'' message (user_time clk) (map_option indian_name ag),
            plain_message (reply_id clk + 1) ''assistant'' ''Failed to send message''
              (reply_time clk) None]\<rparr>)"
  by (simp add: sendMessage_def append_message_def userMessage_def errorAssistant_def Let_def)

lemma sendMessage_null_ok:
  "sendMessage clk message ag (FetchResponse True JsonNull) st =
     (Some (SendFailure null_session_error),
      st\<lparr>chat_loading := False,
         chat_messages := chat_messages st @
           [plain_message (user_id clk) ''user'' message (user_time clk) (map_option indian_name ag),
            plain_message (reply_id clk + 1) ''error'' (''Error: '' @ null_session_error)
              (reply_time clk) None]\<rparr>)"
  by (simp add: sendMessage_def append_message_def userMessage_def errorMessage_def Let_def)

lemma sendMessage_failure:
  "\<not> ok \<or> data_success d = Some False \<Longrightarrow>
   sendMessage clk message ag (FetchResponse ok (JsonValue d)) st =
     (Some (SendFailure (or_else (data_response d) (or_else (data_error d) ''Failed to send message''))),
      st\<lparr>chat_loading := False,
         chat_messages := chat_messages st @
           [plain_message (user_id clk) ''user'' message (user_time clk) (map_option indian_name ag),
            plain_message (reply_id clk + 1) ''assistant''
              (or_else (data_response d) (or_else (data_error d) ''Failed to send message''))
              (reply_time clk) None]\<rparr>)"
  by (auto simp: sendMessage_def append_message_def userMessage_def errorAssistant_def Let_def)

lemma sendMessage_success:
  assumes "ok" and "data_success d \<noteq> Some False"
  shows "fst (sendMessage clk message ag (FetchResponse ok (JsonValue d)) st) = Some (SendSuccess d)"
    and "chat_loading (snd (sendMessage clk message ag (FetchResponse ok (JsonValue d)) st)) = False"
    and "chat_messages (snd (sendMessage clk message ag (FetchResponse ok (JsonValue d)) st)) =
       chat_messages st @
         [plain_message (user_id clk) ''user'' message (user_time clk) (map_option indian_name ag),
          \<lparr> cm_id = reply_id clk + 1, cm_type = ''assistant'',
            cm_content = or_else (data_response d) ''No response received'',
            cm_timestamp = reply_time clk,
            cm_agent = (case data_agent_details d of Some (k # ks) \<Rightarrow> Some k | _ \<Rightarrow> None),
            cm_intent = data_intent d,
            cm_recommendations = Some (or_empty (data_recommendations d)),
            cm_warnings = Some (or_empty (data_warnings d)),
            cm_executionTime = data_execution_time d \<rparr>]"
    and "sessionId (snd (sendMessage clk message ag (FetchResponse ok (JsonValue d)) st)) =
       (case data_session_id d of Some (c # cs) \<Rightarrow> Some (c # cs) | _ \<Rightarrow> sessionId st)"
    and "currentAgent (snd (sendMessage clk message ag (FetchResponse ok (JsonValue d)) st)) = currentAgent st"
  using assms
  by (auto simp: sendMessage_def append_message_def userMessage_def assistantMessage_def Let_def
      truthy_def split: option.splits list.splits)

lemma sendMessage_loading:
  "outcome \<noteq> FetchPending \<Longrightarrow> chat_loading (snd (sendMessage clk message ag outcome st)) = False"
  by (auto simp: sendMessage_def Let_def split: fetch_outcome.splits reply_body.splits option.splits prod.splits)

lemma sendMessage_prefix:
  "prefix (chat_messages st) (chat_messages (snd (sendMessage clk message ag outcome st)))"
  by (auto simp: sendMessage_def append_message_def Let_def prefix_def
      split: fetch_outcome.splits reply_body.splits option.splits)

lemma sendMessage_ignores_blockers:
  "snd (sendMessage clk message ag (FetchResponse ok (JsonValue (d\<lparr>data_blockers := b\<rparr>))) st)
     = snd (sendMessage clk message ag (FetchResponse ok (JsonValue d)) st)"
  by (simp add: sendMessage_def append_message_def assistantMessage_def Let_def)

section \<open>Properties of the SuperAgent chat page\<close>

lemma append_each_concat: "append_each piece items html = html @ concat (map piece items)"
  unfolding append_each_def
  by (induction items arbitrary: html) simp_all

lemma list_item_fun: "list_item = (\<lambda>rec. ''<li>'' @ rec @ ''</li>'')"
  by (rule ext) (simp add: list_item_def)

lemma agent_tag_fun: \<open>agent_tag = (\<lambda>agent. ''<span class="agent-tag">'' @ agent @ ''</span>'')\<close>
  by (rule ext) (simp add: agent_tag_def)

lemma createAgentResponseDetails_none:
  "sa_agent_responses r = None \<or> sa_agent_responses r = Some [] \<Longrightarrow> createAgentResponseDetails r = []"
  by (auto simp: createAgentResponseDetails_def)

lemma createAgentResponseDetails_some:
  \<open>sa_agent_responses r = Some (a # ars) \<Longrightarrow>
   createAgentResponseDetails r =
     ''<div class="agent-response-details"><h4>Agent Analysis</h4><div class="agent-list-details">'' @
     concat (map (\<lambda>x. ''<span class="agent-tag">'' @ ar_agent_name x @ ''</span>'') (a # ars)) @
     ''</div>'' @
     (case sa_recommendations r of
        Some (x # xs) \<Rightarrow> ''<div class="recommendations"><h5>Recommendations</h5><ul>'' @
                         concat (map (\<lambda>rec. ''<li>'' @ rec @ ''</li>'') (x # xs)) @ ''</ul></div>''
      | _ \<Rightarrow> []) @
     (case sa_warnings r of
        Some (x # xs) \<Rightarrow> ''<div class="warnings"><h5>Warnings</h5><ul>'' @
                         concat (map (\<lambda>w. ''<li>'' @ w @ ''</li>'') (x # xs)) @ ''</ul></div>''
      | _ \<Rightarrow> []) @
     ''</div>''\<close>
  by (simp add: createAgentResponseDetails_def append_each_concat agent_tag_fun list_item_fun
      Let_def comp_def split: option.splits list.splits)

lemma createAgentResponseDetails_ignores_blockers:
  "createAgentResponseDetails (r\<lparr>sa_blockers := b\<rparr>) = createAgentResponseDetails r"
  by (simp add: createAgentResponseDetails_def Let_def split: option.splits)

lemma addMessage_details:
  "(case sa_agent_responses r of None \<Rightarrow> [] | Some x \<Rightarrow> createAgentResponseDetails r)
     = createAgentResponseDetails r"
  by (simp add: createAgentResponseDetails_def split: option.splits)

lemma formatMessage_explicit:
  "formatMessage content = concat (map (\<lambda>c. if c = CHR 0x0A then ''<br>'' else [c]) content)"
  by (simp add: formatMessage_def)

lemma filter_remove_first_indicator:
  "filter (\<lambda>n. \<not> carries_indicator_id n) (remove_first_indicator ns)
     = filter (\<lambda>n. \<not> carries_indicator_id n) ns"
  by (induction ns) simp_all

lemma remove_first_indicator_none:
  "\<forall>n \<in> set ns. \<not> carries_indicator_id n \<Longrightarrow> remove_first_indicator ns = ns"
  by (induction ns) simp_all

lemma remove_first_indicator_first:
  "\<forall>n \<in> set ns. \<not> carries_indicator_id n \<Longrightarrow> carries_indicator_id x \<Longrightarrow>
   remove_first_indicator (ns @ x # rest) = ns @ rest"
  by (induction ns) simp_all

lemma filter_replicate_injected:
  "filter (\<lambda>n. \<not> carries_indicator_id n) (replicate k InjectedIndicator) = []"
  by (induction k) simp_all

lemma apology_texts:
  "formatMessage error_connecting = apology_connecting"
  "formatMessage error_processing = apology_processing"
  by (simp_all add: formatMessage_def error_connecting_def error_processing_def)

lemma page_pending:
  assumes "trim (chatInput chat) \<noteq> []" and "\<not> isLoading chat"
  shows "SuperAgentChat_sendMessage tu iu tr ir ApiPending chat =
     chat\<lparr>chatMessages := chatMessages chat @
            page_message ''user'' (br_text (trim (chatInput chat))) tu [] #
            replicate iu InjectedIndicator @ [TypingIndicator],
          chatInput := [], isLoading := True, sendButton_disabled := True,
          chatInput_disabled := True, loadingOverlay_shown := True\<rparr>"
  using assms
  by (simp add: SuperAgentChat_sendMessage_def Let_def addMessage_def setLoading_def
      addTypingIndicator_def formatMessage_def)

lemma page_settled:
  assumes "trim (chatInput chat) \<noteq> []" and "\<not> isLoading chat" and "outcome \<noteq> ApiPending"
  shows "isLoading (SuperAgentChat_sendMessage tu iu tr ir outcome chat) = False"
    and "sendButton_disabled (SuperAgentChat_sendMessage tu iu tr ir outcome chat) = False"
    and "chatInput_disabled (SuperAgentChat_sendMessage tu iu tr ir outcome chat) = False"
    and "loadingOverlay_shown (SuperAgentChat_sendMessage tu iu tr ir outcome chat) = False"
    and "chatInput (SuperAgentChat_sendMessage tu iu tr ir outcome chat) = []"
  using assms
  by (auto simp: SuperAgentChat_sendMessage_def Let_def addMessage_def setLoading_def
      addTypingIndicator_def removeTypingIndicator_def split: api_outcome.splits option.splits)

lemma page_threw:
  assumes "trim (chatInput chat) \<noteq> []" and "\<not> isLoading chat"
  shows "message_elements (chatMessages (SuperAgentChat_sendMessage tu iu tr ir (ApiThrew err) chat)) =
     message_elements (chatMessages chat) @
       [page_message ''user'' (br_text (trim (chatInput chat))) tu [],
        page_message ''system'' apology_connecting tr []]"
  using assms
  by (simp add: SuperAgentChat_sendMessage_def Let_def addMessage_def setLoading_def
      addTypingIndicator_def removeTypingIndicator_def filter_remove_first_indicator
      filter_replicate_injected apology_texts formatMessage_explicit [of "trim (chatInput chat)"])

lemma page_null:
  assumes "trim (chatInput chat) \<noteq> []" and "\<not> isLoading chat"
  shows "message_elements (chatMessages (SuperAgentChat_sendMessage tu iu tr ir (ApiReturned None) chat)) =
     message_elements (chatMessages chat) @
       [page_message ''user'' (br_text (trim (chatInput chat))) tu [],
        page_message ''system'' apology_connecting tr []]"
  using assms
  by (simp add: SuperAgentChat_sendMessage_def Let_def addMessage_def setLoading_def
      addTypingIndicator_def removeTypingIndicator_def filter_remove_first_indicator
      filter_replicate_injected apology_texts formatMessage_explicit [of "trim (chatInput chat)"])

lemma page_refused:
  assumes "trim (chatInput chat) \<noteq> []" and "\<not> isLoading chat" and "sa_success r \<noteq> Some True"
  shows "message_elements (chatMessages (SuperAgentChat_sendMessage tu iu tr ir (ApiReturned (Some r)) chat)) =
     message_elements (chatMessages chat) @
       [page_message ''user'' (br_text (trim (chatInput chat))) tu [],
        page_message ''system'' apology_processing tr []]"
  using assms
  by (simp add: SuperAgentChat_sendMessage_def Let_def addMessage_def setLoading_def
      addTypingIndicator_def removeTypingIndicator_def filter_remove_first_indicator
      filter_replicate_injected apology_texts formatMessage_explicit [of "trim (chatInput chat)"])

lemma page_no_text:
  assumes "trim (chatInput chat) \<noteq> []" and "\<not> isLoading chat"
    and "sa_success r = Some True" and "sa_response r = None"
  shows "message_elements (chatMessages (SuperAgentChat_sendMessage tu iu tr ir (ApiReturned (Some r)) chat)) =
     message_elements (chatMessages chat) @
       [page_message ''user'' (br_text (trim (chatInput chat))) tu [],
        page_message ''system'' apology_connecting tr []]"
  using assms
  by (simp add: SuperAgentChat_sendMessage_def Let_def addMessage_def setLoading_def
      addTypingIndicator_def removeTypingIndicator_def filter_remove_first_indicator
      filter_replicate_injected apology_texts formatMessage_explicit [of "trim (chatInput chat)"])

lemma page_answer:
  assumes "trim (chatInput chat) \<noteq> []" and "\<not> isLoading chat"
    and "sa_success r = Some True" and "sa_response r = Some text"
  shows "message_elements (chatMessages (SuperAgentChat_sendMessage tu iu tr ir (ApiReturned (Some r)) chat)) =
     message_elements (chatMessages chat) @
       [page_message ''user'' (br_text (trim (chatInput chat))) tu [],
        page_message ''assistant'' (br_text text) tr (createAgentResponseDetails r)]"
  using assms
  by (simp add: SuperAgentChat_sendMessage_def Let_def addMessage_def setLoading_def
      addTypingIndicator_def removeTypingIndicator_def filter_remove_first_indicator
      filter_replicate_injected addMessage_details formatMessage_def)

lemma page_indicator_gone:
  assumes "trim (chatInput chat) \<noteq> []" and "\<not> isLoading chat" and "outcome \<noteq> ApiPending"
    and clean: "\<forall>n \<in> set (chatMessages chat). \<not> carries_indicator_id n"
  shows "TypingIndicator \<notin> set (chatMessages (SuperAgentChat_sendMessage tu 0 tr ir outcome chat))"
proof -
  let ?u = "page_message ''user'' (formatMessage (trim (chatInput chat))) tu []"
  have clean': "\<forall>n \<in> set (chatMessages chat @ [?u]). \<not> carries_indicator_id n"
    using clean by simp
  have first: "remove_first_indicator ((chatMessages chat @ [?u]) @ TypingIndicator # []) = chatMessages chat @ [?u]"
    using remove_first_indicator_first [OF clean', of TypingIndicator "[]"] by simp
  have again: "remove_first_indicator (chatMessages chat @ [?u]) = chatMessages chat @ [?u]"
    by (rule remove_first_indicator_none [OF clean'])
  have notin: "TypingIndicator \<notin> set (chatMessages chat)"
    using clean by auto
  show ?thesis
    using assms(1-3) first again notin
    by (auto simp: SuperAgentChat_sendMessage_def Let_def addMessage_def setLoading_def
        addTypingIndicator_def removeTypingIndicator_def
        split: api_outcome.splits option.splits)
qed

lemma page_ignores_blockers:
  "SuperAgentChat_sendMessage tu iu tr ir (ApiReturned (Some (r\<lparr>sa_blockers := b\<rparr>))) chat
     = SuperAgentChat_sendMessage tu iu tr ir (ApiReturned (Some r)) chat"
  by (auto simp: SuperAgentChat_sendMessage_def Let_def addMessage_def
      createAgentResponseDetails_ignores_blockers split: option.splits)

lemma page_guard:
  "trim (chatInput chat) = [] \<or> isLoading chat \<Longrightarrow>
   SuperAgentChat_sendMessage tu iu tr ir outcome chat = chat"
  by (auto simp: SuperAgentChat_sendMessage_def Let_def)

section \<open>Properties of the session ids\<close>

lemma digit_char_inj: "a < 10 \<Longrightarrow> b < 10 \<Longrightarrow> digit_char a = digit_char b \<Longrightarrow> a = b"
  using nth_eq_iff_index_eq [of "''0123456789''" a b] by (simp add: digit_char_def)

lemma digit_char_digit: "d < 10 \<Longrightarrow> digit_char d \<in> set ''0123456789''"
  unfolding digit_char_def by (rule nth_mem) simp

lemma show_nat_digits: "set (show_nat n) \<subseteq> set ''0123456789''"
proof (induction n rule: show_nat.induct)
  case (1 n)
  show ?case
  proof (cases "n < 10")
    case True
    then show ?thesis using digit_char_digit [of n] by (simp add: show_nat.simps)
  next
    case False
    have "n mod 10 < 10" by simp
    then have "digit_char (n mod 10) \<in> set ''0123456789''" by (rule digit_char_digit)
    with False "1.IH" show ?thesis by (subst show_nat.simps) auto
  qed
qed

lemma show_nat_no_underscore: "CHR ''_'' \<notin> set (show_nat n)"
  using show_nat_digits [of n] by auto

lemma show_nat_length: "length (show_nat n) = 1 \<longleftrightarrow> n < 10"
proof (cases "n < 10")
  case True
  then show ?thesis by (simp add: show_nat.simps)
next
  case False
  have "show_nat (n div 10) \<noteq> []" by (subst show_nat.simps) simp
  with False show ?thesis by (subst show_nat.simps) simp
qed

lemma show_nat_inj: "show_nat m = show_nat n \<Longrightarrow> m = n"
proof (induction m arbitrary: n rule: show_nat.induct)
  case (1 m)
  show ?case
  proof (cases "m < 10")
    case True
    then have "length (show_nat m) = 1" using show_nat_length [of m] by blast
    with "1.prems" have n: "n < 10" using show_nat_length [of n] by metis
    from "1.prems" True n have "digit_char m = digit_char n" by (simp add: show_nat.simps)
    with True n show ?thesis by (rule digit_char_inj)
  next
    case False
    then have "length (show_nat m) \<noteq> 1" using show_nat_length [of m] by blast
    with "1.prems" have n: "\<not> n < 10" using show_nat_length [of n] by metis
    have "show_nat (m div 10) @ [digit_char (m mod 10)] = show_nat (n div 10) @ [digit_char (n mod 10)]"
      using "1.prems" False n by (simp add: show_nat.simps [of m] show_nat.simps [of n])
    then have eq: "show_nat (m div 10) = show_nat (n div 10)"
      and d: "digit_char (m mod 10) = digit_char (n mod 10)"
      by simp_all
    from eq have q: "m div 10 = n div 10" using False by (rule "1.IH" [rotated])
    have r: "m mod 10 = n mod 10" using d by (intro digit_char_inj) simp_all
    from q r show ?thesis by (metis div_mult_mod_eq)
  qed
qed

lemma split_at_separator:
  "c \<notin> set xs \<Longrightarrow> c \<notin> set xs' \<Longrightarrow> xs @ c # ys = xs' @ c # ys' \<Longrightarrow> xs = xs' \<and> ys = ys'"
proof (induction xs arbitrary: xs')
  case Nil
  then show ?case by (cases xs') auto
next
  case (Cons a xs)
  then show ?case by (cases xs') auto
qed

section \<open>Properties of the aggregator\<close>




section \<open>The claims about the chat, the session ids and the aggregation\<close>

text \<open>
  C2, as the code has it. While the request does not settle (the source sets no
  timeout) \<open>sendMessage\<close> of the chat context never returns: \<open>loading\<close> stays set and
  only the user's message is appended. When the request settles, \<open>loading\<close> is cleared
  and exactly the user's message and one terminal message are appended: for an
  exception a message of type \<open>error\<close> with the text \<open>Error: \<close> and the exception's
  message; for a body that is not JSON, for a status that is not ok and for a reply
  with \<open>success: false\<close> a message of type \<open>assistant\<close> with the server's response or
  error text (or a fixed text), and the result \<open>{success: false}\<close>; for an accepted
  reply the assistant's message built from it. \<open>SuperAgentChat.sendMessage\<close>, when the
  input is not blank and no request is pending, does the same on the page: while the
  request does not settle the page stays loading, with the user's message and the
  typing indicator appended; when it settles, \<open>isLoading\<close>, the two \<open>disabled\<close> flags and
  the overlay are cleared and the message elements grow by the user's message and one
  terminal message, the answer or a \<open>system\<close> message with one of two apologies; the
  typing indicator is gone when no element written into the page carries its id. A
  blank input, and any input while a request is pending, changes nothing.
\<close>

theorem send_message_outcomes:
  "sendMessage clk message ag FetchPending st =
     (None, st\<lparr>chat_loading := True,
               chat_messages := chat_messages st @
                 [plain_message (user_id clk) ''user'' message (user_time clk) (map_option indian_name ag)]\<rparr>)
   \<and> (outcome \<noteq> FetchPending \<longrightarrow> chat_loading (snd (sendMessage clk message ag outcome st)) = False)
   \<and> sendMessage clk message ag (FetchThrew err) st =
       (Some (SendFailure err),
        st\<lparr>chat_loading := False,
           chat_messages := chat_messages st @
             [plain_message (user_id clk) ''user'' message (user_time clk) (map_option indian_name ag),
              plain_message (reply_id clk + 1) ''error'' (''Error: '' @ err) (reply_time clk) None]\<rparr>)
   \<and> sendMessage clk message ag (FetchResponse ok NotJson) st =
       (Some (SendFailure ''Unexpected server response.''),
        st\<lparr>chat_loading := False,
           chat_messages := chat_messages st @
             [plain_message (user_id clk) ''user'' message (user_time clk) (map_option indian_name ag),
              plain_message (reply_id clk + 1) ''assistant'' ''Unexpected server response.''
                (reply_time clk) None]\<rparr>)
   \<and> sendMessage clk message ag (FetchResponse False JsonNull) st =
       (Some (SendFailure ''Failed to send message''),
        st\<lparr>chat_loading := False,
           chat_messages := chat_messages st @
             [plain_message (user_id clk) ''user'' message (user_time clk) (map_option indian_name ag),
              plain_message (reply_id clk + 1) ''assistant'' ''Failed to send message''
                (reply_time clk) None]\<rparr>)
   \<and> sendMessage clk message ag (FetchResponse True JsonNull) st =
       (Some (SendFailure null_session_error),
        st\<lparr>chat_loading := False,
           chat_messages := chat_messages st @
             [plain_message (user_id clk) ''user'' message (user_time clk) (map_option indian_name ag),
              plain_message (reply_id clk + 1) ''error'' (''Error: '' @ null_session_error)
                (reply_time clk) None]\<rparr>)
   \<and> (\<not> ok \<or> data_success d = Some False \<longrightarrow>
        sendMessage clk message ag (FetchResponse ok (JsonValue d)) st =
          (Some (SendFailure (or_else (data_response d) (or_else (data_error d) ''Failed to send message''))),
           st\<lparr>chat_loading := False,
              chat_messages := chat_messages st @
                [plain_message (user_id clk) ''user'' message (user_time clk) (map_option indian_name ag),
                 plain_message (reply_id clk + 1) ''assistant''
                   (or_else (data_response d) (or_else (data_error d) ''Failed to send message''))
                   (reply_time clk) None]\<rparr>))
   \<and> (ok \<and> data_success d \<noteq> Some False \<longrightarrow>
        fst (sendMessage clk message ag (FetchResponse ok (JsonValue d)) st) = Some (SendSuccess d)
        \<and> chat_messages (snd (sendMessage clk message ag (FetchResponse ok (JsonValue d)) st)) =
            chat_messages st @
              [plain_message (user_id clk) ''user'' message (user_time clk) (map_option indian_name ag),
               \<lparr> cm_id = reply_id clk + 1, cm_type = ''assistant'',
                 cm_content = or_else (data_response d) ''No response received'',
                 cm_timestamp = reply_time clk,
                 cm_agent = (case data_agent_details d of Some (k # ks) \<Rightarrow> Some k | _ \<Rightarrow> None),
                 cm_intent = data_intent d,
                 cm_recommendations = Some (or_empty (data_recommendations d)),
                 cm_warnings = Some (or_empty (data_warnings d)),
                 cm_executionTime = data_execution_time d \<rparr>])
   \<and> or_else None dflt = dflt \<and> or_else (Some []) dflt = dflt \<and> or_else (Some (c # cs)) dflt = c # cs
   \<and> or_empty None = [] \<and> or_empty (Some xs) = xs
   \<and> (trim (chatInput chat) = [] \<or> isLoading chat \<longrightarrow>
        SuperAgentChat_sendMessage tu iu tr ir outcome' chat = chat)
   \<and> (trim (chatInput chat) \<noteq> [] \<and> \<not> isLoading chat \<longrightarrow>
        SuperAgentChat_sendMessage tu iu tr ir ApiPending chat =
          chat\<lparr>chatMessages := chatMessages chat @
                 page_message ''user'' (br_text (trim (chatInput chat))) tu [] #
                 replicate iu InjectedIndicator @ [TypingIndicator],
               chatInput := [], isLoading := True, sendButton_disabled := True,
               chatInput_disabled := True, loadingOverlay_shown := True\<rparr>)
   \<and> (trim (chatInput chat) \<noteq> [] \<and> \<not> isLoading chat \<and> outcome' \<noteq> ApiPending \<longrightarrow>
        isLoading (SuperAgentChat_sendMessage tu iu tr ir outcome' chat) = False
        \<and> sendButton_disabled (SuperAgentChat_sendMessage tu iu tr ir outcome' chat) = False
        \<and> chatInput_disabled (SuperAgentChat_sendMessage tu iu tr ir outcome' chat) = False
        \<and> loadingOverlay_shown (SuperAgentChat_sendMessage tu iu tr ir outcome' chat) = False
        \<and> chatInput (SuperAgentChat_sendMessage tu iu tr ir outcome' chat) = [])
   \<and> (trim (chatInput chat) \<noteq> [] \<and> \<not> isLoading chat \<longrightarrow>
        message_elements (chatMessages (SuperAgentChat_sendMessage tu iu tr ir (ApiThrew err') chat)) =
          message_elements (chatMessages chat) @
            [page_message ''user'' (br_text (trim (chatInput chat))) tu [],
             page_message ''system'' apology_connecting tr []]
        \<and> message_elements (chatMessages (SuperAgentChat_sendMessage tu iu tr ir (ApiReturned None) chat)) =
          message_elements (chatMessages chat) @
            [page_message ''user'' (br_text (trim (chatInput chat))) tu [],
             page_message ''system'' apology_connecting tr []])
   \<and> (trim (chatInput chat) \<noteq> [] \<and> \<not> isLoading chat \<and> sa_success r \<noteq> Some True \<longrightarrow>
        message_elements (chatMessages (SuperAgentChat_sendMessage tu iu tr ir (ApiReturned (Some r)) chat)) =
          message_elements (chatMessages chat) @
            [page_message ''user'' (br_text (trim (chatInput chat))) tu [],
             page_message ''system'' apology_processing tr []])
   \<and> (trim (chatInput chat) \<noteq> [] \<and> \<not> isLoading chat \<and> sa_success r = Some True \<and> sa_response r = None \<longrightarrow>
        message_elements (chatMessages (SuperAgentChat_sendMessage tu iu tr ir (ApiReturned (Some r)) chat)) =
          message_elements (chatMessages chat) @
            [page_message ''user'' (br_text (trim (chatInput chat))) tu [],
             page_message ''system'' apology_connecting tr []])
   \<and> (trim (chatInput chat) \<noteq> [] \<and> \<not> isLoading chat \<and> sa_success r = Some True
        \<and> sa_response r = Some answer \<longrightarrow>
        message_elements (chatMessages (SuperAgentChat_sendMessage tu iu tr ir (ApiReturned (Some r)) chat)) =
          message_elements (chatMessages chat) @
            [page_message ''user'' (br_text (trim (chatInput chat))) tu [],
             page_message ''assistant'' (br_text answer) tr (createAgentResponseDetails r)])
   \<and> (trim (chatInput chat) \<noteq> [] \<and> \<not> isLoading chat \<and> outcome' \<noteq> ApiPending
        \<and> (\<forall>n \<in> set (chatMessages chat). \<not> carries_indicator_id n) \<longrightarrow>
        TypingIndicator \<notin> set (chatMessages (SuperAgentChat_sendMessage tu 0 tr ir outcome' chat)))"
  apply (intro conjI impI)
  by (simp_all add: sendMessage_pending sendMessage_loading sendMessage_threw sendMessage_not_json
      sendMessage_null_not_ok sendMessage_null_ok sendMessage_failure sendMessage_success
      or_else_cases or_empty_cases page_pending page_settled page_threw page_null page_refused
      page_no_text page_answer page_indicator_gone page_guard del: replicate.simps)

theorem send_message_outcomes_witness:
  "sendMessage clock0 ''hello'' None (FetchResponse False (JsonValue server_error_reply)) initial_chat =
     (Some (SendFailure ''Internal Server Error''),
      initial_chat\<lparr>chat_loading := False,
        chat_messages :=
          [plain_message 1700000000000 ''user'' ''hello'' 1700000000000 None,
           plain_message 1700000000901 ''assistant'' ''Internal Server Error'' 1700000000900 None]\<rparr>)
   \<and> fst (sendMessage clock0 ''hello'' None (FetchResponse True (JsonValue blocked_reply)) initial_chat)
       = Some (SendSuccess blocked_reply)
   \<and> chat_loading (snd (sendMessage clock0 ''hello'' None (FetchThrew ''Failed to fetch'') initial_chat)) = False
   \<and> trim (chatInput idle_chat) = ''Which fertilizer for wheat?''
   \<and> \<not> isLoading idle_chat
   \<and> isLoading (SuperAgentChat_sendMessage ''10:00'' 0 ''10:01'' 0 (ApiThrew ''Failed to fetch'') idle_chat) = False
   \<and> loadingOverlay_shown (SuperAgentChat_sendMessage ''10:00'' 0 ''10:01'' 0 (ApiThrew ''Failed to fetch'') idle_chat) = False
   \<and> message_elements (chatMessages
        (SuperAgentChat_sendMessage ''10:00'' 0 ''10:01'' 0 (ApiReturned (Some refused_super_reply)) idle_chat))
       = [page_message ''user'' ''Which fertilizer for wheat?'' ''10:00'' [],
          page_message ''system'' apology_processing ''10:01'' []]
   \<and> message_elements (chatMessages
        (SuperAgentChat_sendMessage ''10:00'' 0 ''10:01'' 0 (ApiReturned (Some textless_super_reply)) idle_chat))
       = [page_message ''user'' ''Which fertilizer for wheat?'' ''10:00'' [],
          page_message ''system'' apology_connecting ''10:01'' []]
   \<and> message_elements (chatMessages
        (SuperAgentChat_sendMessage ''10:00'' 0 ''10:01'' 0 (ApiReturned (Some blocked_super_reply)) idle_chat))
       = [page_message ''user'' ''Which fertilizer for wheat?'' ''10:00'' [],
          page_message ''assistant'' ''Apply 20kg urea'' ''10:01''
            (createAgentResponseDetails blocked_super_reply)]
   \<and> TypingIndicator \<notin> set (chatMessages
        (SuperAgentChat_sendMessage ''10:00'' 0 ''10:01'' 0 (ApiThrew ''Failed to fetch'') idle_chat))"
proof -
  have trimmed: "trim (chatInput idle_chat) = ''Which fertilizer for wheat?''"
    by (simp add: idle_chat_def trim_def is_white_space_def)
  have idle: "\<not> isLoading idle_chat" "chatMessages idle_chat = []"
    by (simp_all add: idle_chat_def)
  have g: "trim (chatInput idle_chat) \<noteq> []"
    by (simp add: trimmed)
  have a: "sendMessage clock0 ''hello'' None (FetchResponse False (JsonValue server_error_reply)) initial_chat =
     (Some (SendFailure ''Internal Server Error''),
      initial_chat\<lparr>chat_loading := False,
        chat_messages :=
          [plain_message 1700000000000 ''user'' ''hello'' 1700000000000 None,
           plain_message 1700000000901 ''assistant'' ''Internal Server Error'' 1700000000900 None]\<rparr>)"
    using send_message_outcomes [where clk = clock0 and message = "''hello''" and ag = None
        and ok = False and d = server_error_reply and st = initial_chat]
    by (simp add: server_error_reply_def clock0_def initial_chat_def)
  have b: "fst (sendMessage clock0 ''hello'' None (FetchResponse True (JsonValue blocked_reply)) initial_chat)
       = Some (SendSuccess blocked_reply)"
    using send_message_outcomes [where clk = clock0 and message = "''hello''" and ag = None
        and ok = True and d = blocked_reply and st = initial_chat]
    by (simp add: blocked_reply_def)
  have c: "chat_loading (snd (sendMessage clock0 ''hello'' None (FetchThrew ''Failed to fetch'') initial_chat)) = False"
    using send_message_outcomes [where clk = clock0 and message = "''hello''" and ag = None
        and outcome = "FetchThrew ''Failed to fetch''" and st = initial_chat]
    by simp
  note page = send_message_outcomes [where chat = idle_chat and tu = "''10:00''" and iu = 0
      and tr = "''10:01''" and ir = 0 and outcome' = "ApiThrew ''Failed to fetch''"
      and err' = "''Failed to fetch''"]
  have d: "isLoading (SuperAgentChat_sendMessage ''10:00'' 0 ''10:01'' 0 (ApiThrew ''Failed to fetch'') idle_chat) = False"
    "loadingOverlay_shown (SuperAgentChat_sendMessage ''10:00'' 0 ''10:01'' 0 (ApiThrew ''Failed to fetch'') idle_chat) = False"
    using page g idle by simp_all
  have e: "TypingIndicator \<notin> set (chatMessages
        (SuperAgentChat_sendMessage ''10:00'' 0 ''10:01'' 0 (ApiThrew ''Failed to fetch'') idle_chat))"
    using page g idle by simp
  have f: "message_elements (chatMessages
        (SuperAgentChat_sendMessage ''10:00'' 0 ''10:01'' 0 (ApiReturned (Some refused_super_reply)) idle_chat))
       = [page_message ''user'' ''Which fertilizer for wheat?'' ''10:00'' [],
          page_message ''system'' apology_processing ''10:01'' []]"
    using send_message_outcomes [where chat = idle_chat and tu = "''10:00''" and iu = 0
        and tr = "''10:01''" and ir = 0 and r = refused_super_reply] g idle
    by (simp add: trimmed refused_super_reply_def)
  have h: "message_elements (chatMessages
        (SuperAgentChat_sendMessage ''10:00'' 0 ''10:01'' 0 (ApiReturned (Some textless_super_reply)) idle_chat))
       = [page_message ''user'' ''Which fertilizer for wheat?'' ''10:00'' [],
          page_message ''system'' apology_connecting ''10:01'' []]"
    using send_message_outcomes [where chat = idle_chat and tu = "''10:00''" and iu = 0
        and tr = "''10:01''" and ir = 0 and r = textless_super_reply] g idle
    by (simp add: trimmed textless_super_reply_def)
  have i: "message_elements (chatMessages
        (SuperAgentChat_sendMessage ''10:00'' 0 ''10:01'' 0 (ApiReturned (Some blocked_super_reply)) idle_chat))
       = [page_message ''user'' ''Which fertilizer for wheat?'' ''10:00'' [],
          page_message ''assistant'' ''Apply 20kg urea'' ''10:01''
            (createAgentResponseDetails blocked_super_reply)]"
    using send_message_outcomes [where chat = idle_chat and tu = "''10:00''" and iu = 0
        and tr = "''10:01''" and ir = 0 and r = blocked_super_reply and answer = "''Apply 20kg urea''"] g idle
    by (simp add: trimmed blocked_super_reply_def)
  from a b c trimmed idle(1) d e f h i show ?thesis by blast
qed

text \<open>
  C2 as stated fails. A request that never settles leaves the chat context loading,
  with the user's message and no terminal message, and leaves the SuperAgent page
  loading with its typing indicator; a status 500 with an error text is shown as a
  message of type \<open>assistant\<close>, the type of an answer; and after a question that holds
  an element with the indicator's id the page keeps its typing indicator although the
  request has failed and the apology is shown.
\<close>

theorem send_message_pending_counterexample:
  "sendMessage clock0 ''hello'' None FetchPending initial_chat =
     (None, \<lparr>chat_messages = [plain_message 1700000000000 ''user'' ''hello'' 1700000000000 None],
             chat_loading = True, sessionId = None, currentAgent = None\<rparr>)
   \<and> SuperAgentChat_sendMessage ''10:00'' 0 ''10:01'' 0 ApiPending idle_chat =
       \<lparr>chatMessages = [page_message ''user'' ''Which fertilizer for wheat?'' ''10:00'' [], TypingIndicator],
        chatInput = [], isLoading = True, sendButton_disabled = True, chatInput_disabled = True,
        loadingOverlay_shown = True\<rparr>
   \<and> chat_messages (snd (sendMessage clock0 ''hello'' None
        (FetchResponse False (JsonValue server_error_reply)) initial_chat)) =
       [plain_message 1700000000000 ''user'' ''hello'' 1700000000000 None,
        plain_message 1700000000901 ''assistant'' ''Internal Server Error'' 1700000000900 None]
   \<and> chatMessages (SuperAgentChat_sendMessage ''10:00'' 1 ''10:01'' 0 (ApiThrew ''Failed to fetch'') markup_chat) =
       [page_message ''user'' (chatInput markup_chat) ''10:00'' [], TypingIndicator,
        page_message ''system'' apology_connecting ''10:01'' []]"
proof -
  have trimmed: "trim (chatInput idle_chat) = ''Which fertilizer for wheat?''"
    by (simp add: idle_chat_def trim_def is_white_space_def)
  have trimmed': "trim (chatInput markup_chat) = chatInput markup_chat"
    by (simp add: markup_chat_def trim_def is_white_space_def)
  have fmt: "formatMessage (chatInput markup_chat) = chatInput markup_chat"
    by (simp add: markup_chat_def formatMessage_def)
  have nonempty: "chatInput markup_chat \<noteq> []"
    by (simp add: markup_chat_def)
  have idle: "\<not> isLoading idle_chat" "\<not> isLoading markup_chat" "chatMessages markup_chat = []"
    by (simp_all add: idle_chat_def markup_chat_def)
  have a: "sendMessage clock0 ''hello'' None FetchPending initial_chat =
     (None, \<lparr>chat_messages = [plain_message 1700000000000 ''user'' ''hello'' 1700000000000 None],
             chat_loading = True, sessionId = None, currentAgent = None\<rparr>)"
    by (simp add: sendMessage_pending clock0_def initial_chat_def)
  have b: "SuperAgentChat_sendMessage ''10:00'' 0 ''10:01'' 0 ApiPending idle_chat =
       \<lparr>chatMessages = [page_message ''user'' ''Which fertilizer for wheat?'' ''10:00'' [], TypingIndicator],
        chatInput = [], isLoading = True, sendButton_disabled = True, chatInput_disabled = True,
        loadingOverlay_shown = True\<rparr>"
    using idle(1) by (simp add: page_pending trimmed) (simp add: idle_chat_def)
  have c: "chat_messages (snd (sendMessage clock0 ''hello'' None
        (FetchResponse False (JsonValue server_error_reply)) initial_chat)) =
       [plain_message 1700000000000 ''user'' ''hello'' 1700000000000 None,
        plain_message 1700000000901 ''assistant'' ''Internal Server Error'' 1700000000900 None]"
    by (simp add: sendMessage_failure server_error_reply_def clock0_def initial_chat_def or_else_def)
  have d: "chatMessages (SuperAgentChat_sendMessage ''10:00'' 1 ''10:01'' 0 (ApiThrew ''Failed to fetch'') markup_chat) =
       [page_message ''user'' (chatInput markup_chat) ''10:00'' [], TypingIndicator,
        page_message ''system'' apology_connecting ''10:01'' []]"
    using nonempty idle(2,3) unfolding SuperAgentChat_sendMessage_def Let_def
    by (simp add: trimmed' fmt addMessage_def setLoading_def addTypingIndicator_def
        removeTypingIndicator_def apology_texts)
  from a b c d show ?thesis by blast
qed

text \<open>
  C1, as the code has it. A reply that \<open>sendMessage\<close> of the chat context accepts (the
  status is ok and \<open>success\<close> is not false) is returned to the caller unchanged, its
  blockers included, and the message appended for it carries the reply's text (or
  \<open>No response received\<close> when the text is missing or empty) and its recommendations
  and warnings unchanged (the empty list for a missing one); a reply it treats as a
  failure gives only the server's response or error text (or \<open>Failed to send message\<close>),
  returned and shown in a message without lists. On the SuperAgent page an accepted
  reply is shown with its text, line breaks written as \<open>br\<close>, and a details block that
  is empty when \<open>agent_responses\<close> is missing or empty and otherwise lists the agents,
  the recommendations and the warnings in their order. Neither reads the blockers: the
  chat state and the page are the same whatever the blockers of the reply are.
\<close>

theorem reply_copied_without_blockers:
  \<open>(ok \<and> data_success d \<noteq> Some False \<longrightarrow>
        fst (sendMessage clk message ag (FetchResponse ok (JsonValue d)) st) = Some (SendSuccess d)
        \<and> chat_messages (snd (sendMessage clk message ag (FetchResponse ok (JsonValue d)) st)) =
            chat_messages st @
              [plain_message (user_id clk) ''user'' message (user_time clk) (map_option indian_name ag),
               \<lparr> cm_id = reply_id clk + 1, cm_type = ''assistant'',
                 cm_content = or_else (data_response d) ''No response received'',
                 cm_timestamp = reply_time clk,
                 cm_agent = (case data_agent_details d of Some (k # ks) \<Rightarrow> Some k | _ \<Rightarrow> None),
                 cm_intent = data_intent d,
                 cm_recommendations = Some (or_empty (data_recommendations d)),
                 cm_warnings = Some (or_empty (data_warnings d)),
                 cm_executionTime = data_execution_time d \<rparr>])
   \<and> (\<not> ok \<or> data_success d = Some False \<longrightarrow>
        sendMessage clk message ag (FetchResponse ok (JsonValue d)) st =
          (Some (SendFailure (or_else (data_response d) (or_else (data_error d) ''Failed to send message''))),
           st\<lparr>chat_loading := False,
              chat_messages := chat_messages st @
                [plain_message (user_id clk) ''user'' message (user_time clk) (map_option indian_name ag),
                 plain_message (reply_id clk + 1) ''assistant''
                   (or_else (data_response d) (or_else (data_error d) ''Failed to send message''))
                   (reply_time clk) None]\<rparr>))
   \<and> or_else None dflt = dflt \<and> or_else (Some []) dflt = dflt \<and> or_else (Some (c # cs)) dflt = c # cs
   \<and> or_empty None = [] \<and> or_empty (Some xs) = xs
   \<and> snd (sendMessage clk message ag (FetchResponse ok (JsonValue (d\<lparr>data_blockers := b\<rparr>))) st)
       = snd (sendMessage clk message ag (FetchResponse ok (JsonValue d)) st)
   \<and> (trim (chatInput chat) \<noteq> [] \<and> \<not> isLoading chat \<and> sa_success r = Some True
        \<and> sa_response r = Some answer \<longrightarrow>
        message_elements (chatMessages (SuperAgentChat_sendMessage tu iu tr ir (ApiReturned (Some r)) chat)) =
          message_elements (chatMessages chat) @
            [page_message ''user'' (br_text (trim (chatInput chat))) tu [],
             page_message ''assistant'' (br_text answer) tr (createAgentResponseDetails r)])
   \<and> (sa_agent_responses r = None \<or> sa_agent_responses r = Some [] \<longrightarrow>
        createAgentResponseDetails r = [])
   \<and> (sa_agent_responses r = Some (a # ars) \<longrightarrow>
        createAgentResponseDetails r =
          ''<div class="agent-response-details"><h4>Agent Analysis</h4><div class="agent-list-details">'' @
          concat (map (\<lambda>x. ''<span class="agent-tag">'' @ ar_agent_name x @ ''</span>'') (a # ars)) @
          ''</div>'' @
          (case sa_recommendations r of
             Some (x # xs) \<Rightarrow> ''<div class="recommendations"><h5>Recommendations</h5><ul>'' @
                              concat (map (\<lambda>rec. ''<li>'' @ rec @ ''</li>'') (x # xs)) @ ''</ul></div>''
           | _ \<Rightarrow> []) @
          (case sa_warnings r of
             Some (x # xs) \<Rightarrow> ''<div class="warnings"><h5>Warnings</h5><ul>'' @
                              concat (map (\<lambda>w. ''<li>'' @ w @ ''</li>'') (x # xs)) @ ''</ul></div>''
           | _ \<Rightarrow> []) @
          ''</div>'')
   \<and> SuperAgentChat_sendMessage tu iu tr ir (ApiReturned (Some (r\<lparr>sa_blockers := b'\<rparr>))) chat
       = SuperAgentChat_sendMessage tu iu tr ir (ApiReturned (Some r)) chat\<close>
  apply (intro conjI impI)
  by (simp_all add: sendMessage_failure sendMessage_success or_else_cases or_empty_cases
      sendMessage_ignores_blockers page_answer createAgentResponseDetails_none
      createAgentResponseDetails_some page_ignores_blockers)

theorem reply_copied_without_blockers_witness:
  \<open>sendMessage clock0 ''Should I fertilize today?'' None
       (FetchResponse True (JsonValue blocked_reply)) initial_chat =
     (Some (SendSuccess blocked_reply),
      \<lparr>chat_messages =
         [plain_message 1700000000000 ''user'' ''Should I fertilize today?'' 1700000000000 None,
          \<lparr> cm_id = 1700000000901, cm_type = ''assistant'', cm_content = ''Apply 20kg urea'',
            cm_timestamp = 1700000000900, cm_agent = Some ''fertilizer_advisor'', cm_intent = None,
            cm_recommendations = Some [''Apply 20kg urea''], cm_warnings = Some [],
            cm_executionTime = None \<rparr>],
       chat_loading = False, sessionId = Some ''s1'', currentAgent = None\<rparr>)
   \<and> sendMessage clock0 ''Should I fertilize today?'' None
       (FetchResponse False (JsonValue blocked_reply)) initial_chat =
     (Some (SendFailure ''Apply 20kg urea''),
      \<lparr>chat_messages =
         [plain_message 1700000000000 ''user'' ''Should I fertilize today?'' 1700000000000 None,
          plain_message 1700000000901 ''assistant'' ''Apply 20kg urea'' 1700000000900 None],
       chat_loading = False, sessionId = None, currentAgent = None\<rparr>)
   \<and> message_elements (chatMessages
        (SuperAgentChat_sendMessage ''10:00'' 0 ''10:01'' 0 (ApiReturned (Some blocked_super_reply)) idle_chat))
       = [page_message ''user'' ''Which fertilizer for wheat?'' ''10:00'' [],
          page_message ''assistant'' ''Apply 20kg urea'' ''10:01''
            (''<div class="agent-response-details"><h4>Agent Analysis</h4>'' @
             ''<div class="agent-list-details"><span class="agent-tag">fertilizer_advisor</span></div>'' @
             ''<div class="recommendations"><h5>Recommendations</h5><ul><li>Apply 20kg urea</li></ul></div>'' @
             ''</div>'')]
   \<and> createAgentResponseDetails ranked_super_reply = []\<close>
proof -
  have trimmed: "trim (chatInput idle_chat) = ''Which fertilizer for wheat?''"
    by (simp add: idle_chat_def trim_def is_white_space_def)
  have idle: "\<not> isLoading idle_chat" "chatMessages idle_chat = []"
    by (simp_all add: idle_chat_def)
  note accepted = reply_copied_without_blockers [where clk = clock0
      and message = "''Should I fertilize today?''" and ag = None and ok = True
      and d = blocked_reply and st = initial_chat]
  have a1: "fst (sendMessage clock0 ''Should I fertilize today?'' None
       (FetchResponse True (JsonValue blocked_reply)) initial_chat) = Some (SendSuccess blocked_reply)"
    using accepted by (simp add: blocked_reply_def)
  have a2: "chat_messages (snd (sendMessage clock0 ''Should I fertilize today?'' None
       (FetchResponse True (JsonValue blocked_reply)) initial_chat)) =
         [plain_message 1700000000000 ''user'' ''Should I fertilize today?'' 1700000000000 None,
          \<lparr> cm_id = 1700000000901, cm_type = ''assistant'', cm_content = ''Apply 20kg urea'',
            cm_timestamp = 1700000000900, cm_agent = Some ''fertilizer_advisor'', cm_intent = None,
            cm_recommendations = Some [''Apply 20kg urea''], cm_warnings = Some [],
            cm_executionTime = None \<rparr>]"
    using accepted by (simp add: blocked_reply_def clock0_def initial_chat_def)
  have a3: "chat_loading (snd (sendMessage clock0 ''Should I fertilize today?'' None
       (FetchResponse True (JsonValue blocked_reply)) initial_chat)) = False"
    "sessionId (snd (sendMessage clock0 ''Should I fertilize today?'' None
       (FetchResponse True (JsonValue blocked_reply)) initial_chat)) = Some ''s1''"
    "currentAgent (snd (sendMessage clock0 ''Should I fertilize today?'' None
       (FetchResponse True (JsonValue blocked_reply)) initial_chat)) = None"
    by (simp_all add: sendMessage_success blocked_reply_def initial_chat_def)
  have a: "sendMessage clock0 ''Should I fertilize today?'' None
       (FetchResponse True (JsonValue blocked_reply)) initial_chat =
     (Some (SendSuccess blocked_reply),
      \<lparr>chat_messages =
         [plain_message 1700000000000 ''user'' ''Should I fertilize today?'' 1700000000000 None,
          \<lparr> cm_id = 1700000000901, cm_type = ''assistant'', cm_content = ''Apply 20kg urea'',
            cm_timestamp = 1700000000900, cm_agent = Some ''fertilizer_advisor'', cm_intent = None,
            cm_recommendations = Some [''Apply 20kg urea''], cm_warnings = Some [],
            cm_executionTime = None \<rparr>],
       chat_loading = False, sessionId = Some ''s1'', currentAgent = None\<rparr>)"
    using a1 a2 a3 by (simp add: prod_eq_iff)
  have b: "sendMessage clock0 ''Should I fertilize today?'' None
       (FetchResponse False (JsonValue blocked_reply)) initial_chat =
     (Some (SendFailure ''Apply 20kg urea''),
      \<lparr>chat_messages =
         [plain_message 1700000000000 ''user'' ''Should I fertilize today?'' 1700000000000 None,
          plain_message 1700000000901 ''assistant'' ''Apply 20kg urea'' 1700000000900 None],
       chat_loading = False, sessionId = None, currentAgent = None\<rparr>)"
    using reply_copied_without_blockers [where clk = clock0
      and message = "''Should I fertilize today?''" and ag = None and ok = False
      and d = blocked_reply and st = initial_chat]
    by (simp add: blocked_reply_def clock0_def initial_chat_def)
  note page = reply_copied_without_blockers [where chat = idle_chat and tu = "''10:00''" and iu = 0
      and tr = "''10:01''" and ir = 0 and r = blocked_super_reply and answer = "''Apply 20kg urea''"
      and a = "\<lparr>ar_agent_name = ''fertilizer_advisor''\<rparr>" and ars = "[]"]
  have details: \<open>createAgentResponseDetails blocked_super_reply =
      ''<div class="agent-response-details"><h4>Agent Analysis</h4>'' @
      ''<div class="agent-list-details"><span class="agent-tag">fertilizer_advisor</span></div>'' @
      ''<div class="recommendations"><h5>Recommendations</h5><ul><li>Apply 20kg urea</li></ul></div>'' @
      ''</div>''\<close>
    using page by (simp add: blocked_super_reply_def)
  have c: \<open>message_elements (chatMessages
        (SuperAgentChat_sendMessage ''10:00'' 0 ''10:01'' 0 (ApiReturned (Some blocked_super_reply)) idle_chat))
       = [page_message ''user'' ''Which fertilizer for wheat?'' ''10:00'' [],
          page_message ''assistant'' ''Apply 20kg urea'' ''10:01''
            (''<div class="agent-response-details"><h4>Agent Analysis</h4>'' @
             ''<div class="agent-list-details"><span class="agent-tag">fertilizer_advisor</span></div>'' @
             ''<div class="recommendations"><h5>Recommendations</h5><ul><li>Apply 20kg urea</li></ul></div>'' @
             ''</div>'')]\<close>
    using page idle details by (simp add: trimmed blocked_super_reply_def)
  have e: "createAgentResponseDetails ranked_super_reply = []"
    using reply_copied_without_blockers [where r = ranked_super_reply]
    by (simp add: ranked_super_reply_def)
  from a b c e show ?thesis by blast
qed

text \<open>
  C1 as stated fails: the server answers Scenario B with the moisture blocker in the
  blockers of its reply; the message the chat shows carries the recommendation and
  not the blocker, and so does the message of the SuperAgent page.
\<close>

theorem blocker_dropped_counterexample:
  \<open>data_blockers blocked_reply = Some [moisture_blocker]
   \<and> message_texts (last (chat_messages (snd (sendMessage clock0 ''Should I fertilize today?'' None
         (FetchResponse True (JsonValue blocked_reply)) initial_chat))))
       = [''Apply 20kg urea'', ''fertilizer_advisor'', ''Apply 20kg urea'']
   \<and> moisture_blocker \<notin> set (message_texts (last (chat_messages (snd (sendMessage clock0
         ''Should I fertilize today?'' None (FetchResponse True (JsonValue blocked_reply)) initial_chat)))))
   \<and> sa_blockers blocked_super_reply = Some [moisture_blocker]
   \<and> chatMessages (SuperAgentChat_sendMessage ''10:00'' 0 ''10:01'' 0
        (ApiReturned (Some blocked_super_reply)) idle_chat)
       = [MessageDiv \<lparr>md_type = ''user'', md_text = ''Which fertilizer for wheat?'',
                      md_time = ''10:00'', md_details = []\<rparr>,
          MessageDiv \<lparr>md_type = ''assistant'', md_text = ''Apply 20kg urea'', md_time = ''10:01'',
            md_details = ''<div class="agent-response-details"><h4>Agent Analysis</h4>'' @
              ''<div class="agent-list-details"><span class="agent-tag">fertilizer_advisor</span></div>'' @
              ''<div class="recommendations"><h5>Recommendations</h5><ul><li>Apply 20kg urea</li></ul></div>'' @
              ''</div>''\<rparr>]\<close>
proof -
  have trimmed: "trim (chatInput idle_chat) = ''Which fertilizer for wheat?''"
    by (simp add: idle_chat_def trim_def is_white_space_def)
  have fmt: "formatMessage ''Which fertilizer for wheat?'' = ''Which fertilizer for wheat?''"
    "formatMessage ''Apply 20kg urea'' = ''Apply 20kg urea''"
    by (simp_all add: formatMessage_def)
  have fields: "sa_success blocked_super_reply = Some True"
    "sa_response blocked_super_reply = Some ''Apply 20kg urea''"
    "sa_agent_responses blocked_super_reply = Some [\<lparr>ar_agent_name = ''fertilizer_advisor''\<rparr>]"
    "sa_recommendations blocked_super_reply = Some [''Apply 20kg urea'']"
    "sa_warnings blocked_super_reply = None"
    "sa_blockers blocked_super_reply = Some [moisture_blocker]"
    by (simp_all add: blocked_super_reply_def)
  have details: \<open>createAgentResponseDetails blocked_super_reply =
      ''<div class="agent-response-details"><h4>Agent Analysis</h4>'' @
      ''<div class="agent-list-details"><span class="agent-tag">fertilizer_advisor</span></div>'' @
      ''<div class="recommendations"><h5>Recommendations</h5><ul><li>Apply 20kg urea</li></ul></div>'' @
      ''</div>''\<close>
    by (simp add: createAgentResponseDetails_some [OF fields(3)] fields)
  have idle: "\<not> isLoading idle_chat" "chatMessages idle_chat = []"
    by (simp_all add: idle_chat_def)
  have page: \<open>chatMessages (SuperAgentChat_sendMessage ''10:00'' 0 ''10:01'' 0
        (ApiReturned (Some blocked_super_reply)) idle_chat)
       = [MessageDiv \<lparr>md_type = ''user'', md_text = ''Which fertilizer for wheat?'',
                      md_time = ''10:00'', md_details = []\<rparr>,
          MessageDiv \<lparr>md_type = ''assistant'', md_text = ''Apply 20kg urea'', md_time = ''10:01'',
            md_details = createAgentResponseDetails blocked_super_reply\<rparr>]\<close>
    unfolding SuperAgentChat_sendMessage_def Let_def
    by (simp add: trimmed fmt fields idle addMessage_def setLoading_def addTypingIndicator_def
        removeTypingIndicator_def)
  have chat: "last (chat_messages (snd (sendMessage clock0 ''Should I fertilize today?'' None
         (FetchResponse True (JsonValue blocked_reply)) initial_chat))) = assistantMessage clock0 blocked_reply"
    by (simp add: sendMessage_def append_message_def Let_def blocked_reply_def)
  have texts: "message_texts (assistantMessage clock0 blocked_reply)
      = [''Apply 20kg urea'', ''fertilizer_advisor'', ''Apply 20kg urea'']"
    by (simp add: message_texts_def assistantMessage_def blocked_reply_def or_else_def or_empty_def)
  have notin: "moisture_blocker \<notin> set [''Apply 20kg urea'', ''fertilizer_advisor'', ''Apply 20kg urea'']"
    by (simp add: moisture_blocker_def)
  have "data_blockers blocked_reply = Some [moisture_blocker]"
    by (simp add: blocked_reply_def)
  with chat texts notin fields(6) page details show ?thesis by simp
qed




text \<open>
  C4. The confidence of the fertilizer advisor is the base 0.85 less a fixed deduction
  for the data source: nothing for an exact match, 0.10 for a group match, 0.20 for
  the generic fallback; so 0.85, 0.75 and 0.65, and for the same result (blocked or
  not) an exact match has at least the confidence of a group match, which has at
  least that of the generic fallback.
\<close>

theorem confidence_by_provenance:
  "adjusted_confidence src = 0.85 - confidence_deduction src
   \<and> confidence_deduction Exact = 0 \<and> confidence_deduction Group = 0.10
   \<and> confidence_deduction Generic = 0.20
   \<and> output_confidence False Exact = 0.85 \<and> output_confidence False Group = 0.75
   \<and> output_confidence False Generic = 0.65
   \<and> output_confidence blocked Exact \<ge> output_confidence blocked Group
   \<and> output_confidence blocked Group \<ge> output_confidence blocked Generic"
  by (simp add: output_confidence_def adjusted_confidence_def base_confidence_def)

text \<open>
  C6, as the code has it. Every action of the reducer, every sequence of dispatches
  and so every operation of the orchestrator context (processing a query and receiving
  its response, polling the workflow status, cancelling or clearing a workflow,
  clearing an error, fetching the reasoning tree or the system status), and
  \<open>sendMessage\<close> of the chat context, leave the previous
  message list a prefix of the new one. \<open>clearChat\<close> is the exception: it empties the
  list.
\<close>

theorem message_history_append_only:
  "prefix (messages state) (messages (orchestratorReducer state a))
   \<and> prefix (messages state) (messages (dispatch_all state acts))
   \<and> prefix (messages state) (messages (dispatch_all state (processQuery clk query response)))
   \<and> prefix (messages state) (messages (dispatch_all state (getWorkflowStatus polled)))
   \<and> prefix (messages state) (messages (dispatch_all state (cancelWorkflow ack)))
   \<and> prefix (messages state) (messages (dispatch_all state clearWorkflow))
   \<and> prefix (messages state) (messages (dispatch_all state clearError))
   \<and> prefix (messages state) (messages (dispatch_all state (getReasoningTree tree)))
   \<and> prefix (messages state) (messages (dispatch_all state (initializeSystem sys)))
   \<and> prefix (chat_messages st) (chat_messages (snd (sendMessage cclk message ag outcome st)))
   \<and> chat_messages (clearChat st) = []"
  by (simp add: reducer_messages_prefix dispatch_all_messages_prefix sendMessage_prefix clearChat_def)

theorem message_history_append_only_witness:
  "prefix (messages initialState)
     (messages (dispatch_all initialState (processQuery
        \<lparr>now_user = 1700000000000, iso_user = ''2023-11-14T22:13:20.000Z'',
         now_system = 1700000000900, iso_system = ''2023-11-14T22:13:20.900Z''\<rparr>
        ''hello'' (Rejected ''Failed to fetch''))))
   \<and> length (messages (dispatch_all initialState (processQuery
        \<lparr>now_user = 1700000000000, iso_user = ''2023-11-14T22:13:20.000Z'',
         now_system = 1700000000900, iso_system = ''2023-11-14T22:13:20.900Z''\<rparr>
        ''hello'' (Rejected ''Failed to fetch'')))) = 1
   \<and> prefix (chat_messages initial_chat)
       (chat_messages (snd (sendMessage clock0 ''hello'' None (FetchThrew ''Failed to fetch'') initial_chat)))"
  using message_history_append_only [where state = initialState and a = UNKNOWN_ACTION and acts = "[]"
      and clk = "\<lparr>now_user = 1700000000000, iso_user = ''2023-11-14T22:13:20.000Z'',
        now_system = 1700000000900, iso_system = ''2023-11-14T22:13:20.900Z''\<rparr>"
      and query = "''hello''" and response = "Rejected ''Failed to fetch''"
      and polled = "Rejected ''Failed to fetch''" and ack = "Rejected ''Failed to fetch''"
      and st = initial_chat and cclk = clock0 and message = "''hello''" and ag = None
      and outcome = "FetchThrew ''Failed to fetch''"]
  by (simp add: processQuery_def dispatch_all_def initialState_def)

text \<open>
  C6 as stated fails: after one exchange the chat holds two messages; \<open>clearChat\<close>
  leaves none, and the two are no prefix of the empty list.
\<close>

theorem clear_chat_counterexample:
  "chat_messages (snd (sendMessage clock0 ''hello'' None (FetchThrew ''Failed to fetch'') initial_chat))
     = [userMessage clock0 ''hello'' None, errorMessage clock0 ''Failed to fetch'']
   \<and> chat_messages (clearChat (snd (sendMessage clock0 ''hello'' None (FetchThrew ''Failed to fetch'') initial_chat))) = []
   \<and> \<not> prefix
        (chat_messages (snd (sendMessage clock0 ''hello'' None (FetchThrew ''Failed to fetch'') initial_chat)))
        (chat_messages (clearChat (snd (sendMessage clock0 ''hello'' None (FetchThrew ''Failed to fetch'') initial_chat))))"
  by (simp add: sendMessage_threw clearChat_def initial_chat_def userMessage_def errorMessage_def)

text \<open>
  C8, as the code has it. The id is \<open>session_\<close>, the millisecond count in decimal, an
  underscore and at most nine characters of the random draw written in base 36. Two
  ids are equal exactly when the two invocations read the same millisecond and their
  draws agree on those nine characters; so ids made in different milliseconds differ.
\<close>

theorem session_id_collision_iff:
  "generateSessionId now1 r1 = generateSessionId now2 r2
   \<longleftrightarrow> now1 = now2 \<and> substr 2 9 r1 = substr 2 9 r2"
proof
  assume "generateSessionId now1 r1 = generateSessionId now2 r2"
  then have "show_nat now1 @ CHR ''_'' # substr 2 9 r1 = show_nat now2 @ CHR ''_'' # substr 2 9 r2"
    by (simp add: generateSessionId_def)
  then have "show_nat now1 = show_nat now2 \<and> substr 2 9 r1 = substr 2 9 r2"
    by (rule split_at_separator [OF show_nat_no_underscore show_nat_no_underscore])
  then show "now1 = now2 \<and> substr 2 9 r1 = substr 2 9 r2"
    by (auto dest: show_nat_inj)
next
  assume "now1 = now2 \<and> substr 2 9 r1 = substr 2 9 r2"
  then show "generateSessionId now1 r1 = generateSessionId now2 r2"
    by (simp add: generateSessionId_def)
qed

text \<open>
  C8 as stated fails: two invocations in the same millisecond whose random draws
  differ only after the eleventh character return the same id.
\<close>

theorem session_id_collision_counterexample:
  "generateSessionId 1700000000000 ''0.4fzyo82mvyr'' = ''session_1700000000000_4fzyo82mv''
   \<and> generateSessionId 1700000000000 ''0.4fzyo82mvk2'' = ''session_1700000000000_4fzyo82mv''
   \<and> ''0.4fzyo82mvyr'' \<noteq> ''0.4fzyo82mvk2''"
  by (simp add: generateSessionId_def substr_def digit_char_def show_nat.simps)

end
